theory Spec2Isabelle
  imports Main "HOL-Library.Sublist"
begin

section \<open>JSON values and the JavaScript operations the handlers apply to them\<close>

text \<open>
  Request bodies and gateway payloads are JSON values. A JavaScript value that may be
  \<^verbatim>\<open>undefined\<close> is a \<open>json option\<close> with \<open>None\<close> for \<^verbatim>\<open>undefined\<close>. Numbers are the
  integers (amounts are given in the smallest currency unit); strings are lists of
  code units; an object lists its own properties, each key once.
\<close>

datatype json =
    JNull
  | JBool bool
  | JNum int
  | JStr string
  | JArr "json list"
  | JObj "(string \<times> json) list"

text \<open>
  Errors thrown inside a handler's \<^verbatim>\<open>try\<close> block. \<open>TypeError k\<close> is the error of reading
  or calling property \<open>k\<close> of \<^verbatim>\<open>undefined\<close>, \<^verbatim>\<open>null\<close> or a value that has no such
  method; \<open>FetchError m\<close> is a rejected \<^verbatim>\<open>fetch\<close>; \<open>SyntaxError\<close> is a rejected
  \<^verbatim>\<open>response.json()\<close>; \<open>Error m\<close> is \<^verbatim>\<open>new Error(m)\<close>.
\<close>

datatype js_error = Error string | TypeError string | FetchError string | SyntaxError

text \<open>Truthiness, as \<^verbatim>\<open>!x\<close>, \<^verbatim>\<open>x && y\<close>, \<^verbatim>\<open>x || y\<close> and \<^verbatim>\<open>if (x)\<close> test it.\<close>

fun truthy :: "json \<Rightarrow> bool" where
  "truthy JNull = False"
| "truthy (JBool b) = b"
| "truthy (JNum n) = (n \<noteq> 0)"
| "truthy (JStr s) = (s \<noteq> [])"
| "truthy (JArr xs) = True"
| "truthy (JObj kvs) = True"

definition truthy_opt :: "json option \<Rightarrow> bool" where
  "truthy_opt v = (case v of None \<Rightarrow> False | Some j \<Rightarrow> truthy j)"

text \<open>
  Property read \<^verbatim>\<open>v.k\<close>, for the property names the handlers read (none of them is an
  index or a member of a prototype other than \<^verbatim>\<open>length\<close>).
\<close>

fun get_prop :: "json option \<Rightarrow> string \<Rightarrow> js_error + json option" where
  "get_prop None k = Inl (TypeError k)"
| "get_prop (Some JNull) k = Inl (TypeError k)"
| "get_prop (Some (JObj kvs)) k = Inr (map_of kvs k)"
| "get_prop (Some (JStr s)) k =
     Inr (if k = ''length'' then Some (JNum (int (length s))) else None)"
| "get_prop (Some (JArr xs)) k =
     Inr (if k = ''length'' then Some (JNum (int (length xs))) else None)"
| "get_prop (Some (JBool b)) k = Inr None"
| "get_prop (Some (JNum n)) k = Inr None"

text \<open>
  Decimal rendering of numbers, as JavaScript prints the integers of magnitude below
  \<open>10\<^sup>2\<^sup>1\<close> (beyond it JavaScript switches to exponent notation).
\<close>

definition digit :: "nat \<Rightarrow> char" where
  "digit d = char_of (48 + d)"

fun show_nat :: "nat \<Rightarrow> string" where
  "show_nat n = (if n < 10 then [digit n] else show_nat (n div 10) @ [digit (n mod 10)])"

declare show_nat.simps [simp del]

definition show_int :: "int \<Rightarrow> string" where
  "show_int i = (if i < 0 then CHR ''-'' # show_nat (nat (- i)) else show_nat (nat i))"

text \<open>
  Conversion to a string, as string concatenation, template literals and property keys
  apply it. An array is its elements joined by commas, \<^verbatim>\<open>null\<close> elements being empty;
  an object is \<^verbatim>\<open>[object Object]\<close> unless an own property hides the inherited
  \<^verbatim>\<open>toString\<close>, in which case the conversion throws.
\<close>

fun to_str :: "json \<Rightarrow> js_error + string"
  and join_str :: "json list \<Rightarrow> js_error + string" where
  "to_str JNull = Inr ''null''"
| "to_str (JBool b) = Inr (if b then ''true'' else ''false'')"
| "to_str (JNum n) = Inr (show_int n)"
| "to_str (JStr s) = Inr s"
| "to_str (JArr xs) = join_str xs"
| "to_str (JObj kvs) =
     (if map_of kvs ''toString'' = None then Inr ''[object Object]''
      else Inl (TypeError ''toString''))"
| "join_str [] = Inr []"
| "join_str (x # xs) =
     (case (if x = JNull then Inr [] else to_str x) of
        Inl e \<Rightarrow> Inl e
      | Inr s \<Rightarrow>
          (if xs = [] then Inr s
           else (case join_str xs of Inl e \<Rightarrow> Inl e | Inr r \<Rightarrow> Inr (s @ '','' @ r))))"

definition to_str_opt :: "json option \<Rightarrow> js_error + string" where
  "to_str_opt v = (case v of None \<Rightarrow> Inr ''undefined'' | Some j \<Rightarrow> to_str j)"

text \<open>
  \<^verbatim>\<open>JSON.stringify\<close> of an object literal drops the properties whose value is
  \<^verbatim>\<open>undefined\<close>; a request or response body is represented by the JSON value sent.
\<close>

fun obj :: "(string \<times> json option) list \<Rightarrow> (string \<times> json) list" where
  "obj [] = []"
| "obj ((k, None) # kvs) = obj kvs"
| "obj ((k, Some v) # kvs) = (k, v) # obj kvs"

text \<open>Assignment \<^verbatim>\<open>o.k = v\<close> and object spread \<^verbatim>\<open>{...v}\<close>.\<close>

fun set_prop :: "string \<Rightarrow> json \<Rightarrow> (string \<times> json) list \<Rightarrow> (string \<times> json) list" where
  "set_prop k v [] = [(k, v)]"
| "set_prop k v ((k', v') # kvs) =
     (if k' = k then (k, v) # kvs else (k', v') # set_prop k v kvs)"

fun indexed :: "nat \<Rightarrow> json list \<Rightarrow> (string \<times> json) list" where
  "indexed i [] = []"
| "indexed i (x # xs) = (show_nat i, x) # indexed (Suc i) xs"

fun spread :: "json \<Rightarrow> (string \<times> json) list" where
  "spread (JObj kvs) = kvs"
| "spread (JArr xs) = indexed 0 xs"
| "spread (JStr s) = indexed 0 (map (\<lambda>c. JStr [c]) s)"
| "spread JNull = []"
| "spread (JBool b) = []"
| "spread (JNum n) = []"

section \<open>String searches\<close>

text \<open>\<^verbatim>\<open>s.includes(sub)\<close>.\<close>

fun str_includes :: "string \<Rightarrow> string \<Rightarrow> bool" where
  "str_includes [] sub = (sub = [])"
| "str_includes (c # cs) sub = (prefix sub (c # cs) \<or> str_includes cs sub)"

text \<open>
  \<^verbatim>\<open>s.match(re)\<close> for the four regular expressions of the handlers. Each is a literal
  followed by a greedy non-empty run of a character class in a capture group;
  \<open>search\<close> tries the start positions from left to right and returns the capture of
  the first match, \<open>None\<close> for \<^verbatim>\<open>null\<close>.
\<close>

fun search :: "(string \<Rightarrow> string option) \<Rightarrow> string \<Rightarrow> string option" where
  "search m [] = m []"
| "search m (c # cs) = (case m (c # cs) of Some r \<Rightarrow> Some r | None \<Rightarrow> search m cs)"

definition lit_run :: "string \<Rightarrow> (char \<Rightarrow> bool) \<Rightarrow> string \<Rightarrow> string option" where
  "lit_run lit cls s =
     (if prefix lit s \<and> takeWhile cls (drop (length lit) s) \<noteq> []
      then Some (takeWhile cls (drop (length lit) s)) else None)"

definition quote :: char where
  "quote = CHR 0x22"

definition not_quote :: "char \<Rightarrow> bool" where
  "not_quote c = (c \<noteq> quote)"

definition not_slash :: "char \<Rightarrow> bool" where
  "not_slash c = (c \<noteq> CHR ''/'')"

definition word_char :: "char \<Rightarrow> bool" where
  "word_char c =
     (let n = (of_char c :: nat)
      in (97 \<le> n \<and> n \<le> 122) \<or> (65 \<le> n \<and> n \<le> 90) \<or> (48 \<le> n \<and> n \<le> 57) \<or> n = 95)"

text \<open>\<^verbatim>\<open>/url=([^"]+)/\<close>, the Express handlers' pattern.\<close>

definition match_url :: "string \<Rightarrow> string option" where
  "match_url s = search (lit_run ''url='' not_quote) s"

text \<open>\<^verbatim>\<open>/url=([^"]+)"/\<close>, the serverless handlers' pattern: the run must end at a quote.\<close>

definition lit_run_quoted :: "string \<Rightarrow> string option" where
  "lit_run_quoted s =
     (case lit_run ''url='' not_quote s of
        None \<Rightarrow> None
      | Some u \<Rightarrow> (if length ''url='' + length u < length s then Some u else None))"

definition match_url_quoted :: "string \<Rightarrow> string option" where
  "match_url_quoted s = search lit_run_quoted s"

text \<open>\<^verbatim>\<open>/payments\/([^/]+)/\<close>.\<close>

definition match_payments :: "string \<Rightarrow> string option" where
  "match_payments s = search (lit_run ''payments/'' not_slash) s"

text \<open>\<^verbatim>\<open>/razorpay_payment_id[=:]([a-zA-Z0-9_]+)/\<close>.\<close>

definition lit_run_id :: "string \<Rightarrow> string option" where
  "lit_run_id s =
     (case lit_run ''razorpay_payment_id='' word_char s of
        Some r \<Rightarrow> Some r
      | None \<Rightarrow> lit_run ''razorpay_payment_id:'' word_char s)"

definition match_payment_id :: "string \<Rightarrow> string option" where
  "match_payment_id s = search lit_run_id s"

section \<open>Configuration, gateway and replies\<close>

text \<open>\<^verbatim>\<open>process.env\<close>: a variable is a string or \<^verbatim>\<open>undefined\<close>.\<close>

type_synonym env = "string \<Rightarrow> string option"

datatype config = Config (keyId: "string option") (keySecret: "string option") (currency: string)

text \<open>Truthiness of a value that is a string or \<^verbatim>\<open>undefined\<close>.\<close>

definition present :: "string option \<Rightarrow> bool" where
  "present v = (case v of None \<Rightarrow> False | Some s \<Rightarrow> s \<noteq> [])"

text \<open>\<^verbatim>\<open>process.env.X || ''\<close>.\<close>

definition or_empty :: "string option \<Rightarrow> string option" where
  "or_empty v = (if present v then v else Some [])"

text \<open>The table of \<^verbatim>\<open>server.js\<close>.\<close>

definition RAZORPAY_CONFIGS_server :: "env \<Rightarrow> (string \<times> config) list" where
  "RAZORPAY_CONFIGS_server e =
     [(''MY'', Config (or_empty (e ''RAZORPAY_KEY_ID_MY''))
                      (or_empty (e ''RAZORPAY_KEY_SECRET_MY'')) ''MYR''),
      (''SG'', Config (or_empty (e ''RAZORPAY_KEY_ID_SG''))
                      (or_empty (e ''RAZORPAY_KEY_SECRET_SG'')) ''SGD''),
      (''US'', Config (or_empty (e ''RAZORPAY_KEY_ID_US''))
                      (or_empty (e ''RAZORPAY_KEY_SECRET_US'')) ''USD''),
      (''IN'', Config (or_empty (e ''RAZORPAY_KEY_ID_IN''))
                      (or_empty (e ''RAZORPAY_KEY_SECRET_IN'')) ''INR'')]"

text \<open>The table of \<^verbatim>\<open>api/create-payment.js\<close> and of the serverless Apple Pay handler.\<close>

definition RAZORPAY_CONFIGS_api :: "env \<Rightarrow> (string \<times> config) list" where
  "RAZORPAY_CONFIGS_api e =
     [(''MY'', Config (e ''RAZORPAY_KEY_ID_MY'') (e ''RAZORPAY_KEY_SECRET_MY'') ''MYR''),
      (''SG'', Config (e ''RAZORPAY_KEY_ID_SG'') (e ''RAZORPAY_KEY_SECRET_SG'') ''SGD''),
      (''US'', Config (e ''RAZORPAY_KEY_ID_US'') (e ''RAZORPAY_KEY_SECRET_US'') ''USD''),
      (''IN'', Config (e ''RAZORPAY_KEY_ID_IN'') (e ''RAZORPAY_KEY_SECRET_IN'') ''INR'')]"

text \<open>
  \<^verbatim>\<open>RAZORPAY_CONFIGS[country]\<close>: the index is converted to a property key. A key that
  names an inherited member (\<^verbatim>\<open>constructor\<close>, \<^verbatim>\<open>toString\<close>, ...) yields a value without
  \<^verbatim>\<open>keyId\<close> and \<^verbatim>\<open>keySecret\<close>, which every guard below treats as it treats a missing
  entry, so the lookup returns \<open>None\<close> for it.
\<close>

definition config_at :: "(string \<times> config) list \<Rightarrow> string \<Rightarrow> config option" where
  "config_at table key = map_of table key"

text \<open>
  The \<^verbatim>\<open>Authorization\<close> header \<^verbatim>\<open>Basic base64(keyId:keySecret)\<close>, represented by the
  text that is encoded.
\<close>

datatype auth = Basic string

definition credentials :: "config \<Rightarrow> string" where
  "credentials c =
     (case keyId c of None \<Rightarrow> ''undefined'' | Some i \<Rightarrow> i) @ '':'' @
     (case keySecret c of None \<Rightarrow> ''undefined'' | Some s \<Rightarrow> s)"

text \<open>\<^verbatim>\<open>getConfig(country = 'MY')\<close> and \<^verbatim>\<open>getAuthHeader(country = 'MY')\<close> of \<^verbatim>\<open>server.js\<close>.\<close>

definition getConfig :: "env \<Rightarrow> json option \<Rightarrow> js_error + config" where
  "getConfig e country =
     (case to_str_opt (case country of None \<Rightarrow> Some (JStr ''MY'') | Some c \<Rightarrow> Some c) of
        Inl err \<Rightarrow> Inl err
      | Inr key \<Rightarrow>
          (case config_at (RAZORPAY_CONFIGS_server e) key of
             None \<Rightarrow> Inl (Error (''Invalid or unconfigured country: '' @ key))
           | Some c \<Rightarrow>
               (if \<not> present (keySecret c)
                then Inl (Error (''Invalid or unconfigured country: '' @ key))
                else Inr c)))"

definition getAuthHeader :: "env \<Rightarrow> json option \<Rightarrow> js_error + auth" where
  "getAuthHeader e country =
     (case to_str_opt (case country of None \<Rightarrow> Some (JStr ''MY'') | Some c \<Rightarrow> Some c) of
        Inl err \<Rightarrow> Inl err
      | Inr key \<Rightarrow>
          (case config_at (RAZORPAY_CONFIGS_server e) key of
             None \<Rightarrow> Inl (Error (''Invalid or unconfigured country: '' @ key))
           | Some c \<Rightarrow>
               (if \<not> present (keySecret c)
                then Inl (Error (''Invalid or unconfigured country: '' @ key))
                else Inr (Basic (credentials c)))))"

text \<open>
  A gateway response as \<^verbatim>\<open>fetch\<close> resolves it: the status, the \<^verbatim>\<open>content-type\<close> header
  (\<open>None\<close> when absent), the body as \<^verbatim>\<open>text()\<close> returns it and as \<^verbatim>\<open>json()\<close> parses it
  (\<open>None\<close> when the body is not JSON and \<^verbatim>\<open>json()\<close> rejects).
\<close>

datatype response =
  Response (status: nat) (content_type: "string option") (text_body: string)
    (json_body: "json option")

datatype fetch_result = Rejected string | Resolved response

definition ok :: "response \<Rightarrow> bool" where
  "ok r = (200 \<le> status r \<and> status r \<le> 299)"

text \<open>An outbound call: the URL, the authorization and the JSON body sent.\<close>

datatype call = Call (endpoint: string) (authorization: auth) (sent: json)

definition orders_url :: string where
  "orders_url = ''https://api.razorpay.com/v1/orders''"

definition payments_url :: string where
  "payments_url = ''https://api.razorpay.com/v1/payments/create/json''"

text \<open>
  What the handler sends to its caller: the status and the body. \<open>Thrown c e\<close> is the
  body \<^verbatim>\<open>{error: {code: c, description: e.message}}\<close> of a \<^verbatim>\<open>catch\<close> block.
\<close>

datatype content = Empty | Json json | Thrown "string option" js_error

datatype reply = Reply (reply_status: nat) (reply_body: content)

definition error_json :: "string option \<Rightarrow> string \<Rightarrow> string option \<Rightarrow> content" where
  "error_json c description details =
     Json (JObj [(''error'', JObj (obj [(''code'', map_option JStr c),
                                       (''description'', Some (JStr description)),
                                       (''details'', map_option JStr details)]))])"

text \<open>
  A read \<^verbatim>\<open>v.k\<close> that cannot throw: of a truthy value, or of a value that an earlier
  read has shown to be neither \<^verbatim>\<open>undefined\<close> nor \<^verbatim>\<open>null\<close>.
\<close>

definition props :: "json option \<Rightarrow> string \<Rightarrow> json option" where
  "props v k = (case get_prop v k of Inl e \<Rightarrow> None | Inr x \<Rightarrow> x)"

text \<open>
  \<^verbatim>\<open>const {amount, ...} = req.body\<close>: throws when the body is \<^verbatim>\<open>undefined\<close> or \<^verbatim>\<open>null\<close>,
  and otherwise reads each name.
\<close>

definition destructure :: "json option \<Rightarrow> js_error + (string \<Rightarrow> json option)" where
  "destructure b =
     (case get_prop b ''amount'' of
        Inl e \<Rightarrow> Inl e
      | Inr a \<Rightarrow> Inr (props b))"

text \<open>
  The order step shared by the four handlers: \<^verbatim>\<open>await fetch\<close>, \<^verbatim>\<open>await json()\<close>, then
  \<^verbatim>\<open>if (!orderResponse.ok) return res.status(orderResponse.status).json(orderData)\<close>.
  The result is the thrown error, the early reply, or \<^verbatim>\<open>orderData\<close>.
\<close>

definition await_order :: "fetch_result \<Rightarrow> js_error + (reply + json)" where
  "await_order ord =
     (case ord of
        Rejected m \<Rightarrow> Inl (FetchError m)
      | Resolved r \<Rightarrow>
          (case json_body r of
             None \<Rightarrow> Inl SyntaxError
           | Some orderData \<Rightarrow>
               (if \<not> ok r then Inr (Inl (Reply (status r) (Json orderData)))
                else Inr (Inr orderData))))"

text \<open>\<^verbatim>\<open>contentType && contentType.includes('application/json')\<close>.\<close>

definition is_json_type :: "string option \<Rightarrow> bool" where
  "is_json_type ct =
     (case ct of None \<Rightarrow> False | Some s \<Rightarrow> s \<noteq> [] \<and> str_includes s ''application/json'')"

text \<open>
  \<^verbatim>\<open>next.find(action => action.action === 'redirect')\<close>: the first entry whose
  \<^verbatim>\<open>action\<close> is the string \<^verbatim>\<open>redirect\<close>; reading \<^verbatim>\<open>action\<close> of a \<^verbatim>\<open>null\<close> entry throws.
\<close>

fun find_redirect :: "json list \<Rightarrow> js_error + json option" where
  "find_redirect [] = Inr None"
| "find_redirect (a # as) =
     (case get_prop (Some a) ''action'' of
        Inl e \<Rightarrow> Inl e
      | Inr v \<Rightarrow> (if v = Some (JStr ''redirect'') then Inr (Some a) else find_redirect as))"

text \<open>
  The redirect check of the JSON branch:
  \<^verbatim>\<open>if (data.next && Array.isArray(data.next)) { const redirectAction = ...;
  if (redirectAction && redirectAction.url) ... }\<close>. The result is the url when the
  inner condition holds.
\<close>

definition next_redirect :: "json \<Rightarrow> js_error + json option" where
  "next_redirect data =
     (case get_prop (Some data) ''next'' of
        Inl e \<Rightarrow> Inl e
      | Inr None \<Rightarrow> Inr None
      | Inr (Some (JArr xs)) \<Rightarrow>
          (case find_redirect xs of
             Inl e \<Rightarrow> Inl e
           | Inr None \<Rightarrow> Inr None
           | Inr (Some a) \<Rightarrow>
               (case get_prop (Some a) ''url'' of
                  Inl e \<Rightarrow> Inl e
                | Inr u \<Rightarrow> Inr (if truthy_opt u then u else None)))
      | Inr (Some other) \<Rightarrow> Inr None)"

section \<open>The card handler of \<^verbatim>\<open>server.js\<close>: \<^verbatim>\<open>POST /api/create-payment\<close>\<close>

text \<open>
  \<^verbatim>\<open>let expiryYear = card.expiry_year;
  if (expiryYear.length === 2) { expiryYear = '20' + expiryYear; }\<close>
\<close>

definition expiry_shim :: "json option \<Rightarrow> js_error + json option" where
  "expiry_shim expiryYear =
     (case get_prop expiryYear ''length'' of
        Inl e \<Rightarrow> Inl e
      | Inr l \<Rightarrow>
          (if l = Some (JNum 2)
           then (case to_str_opt expiryYear of
                   Inl e \<Rightarrow> Inl e
                 | Inr s \<Rightarrow> Inr (Some (JStr (''20'' @ s))))
           else Inr expiryYear))"

text \<open>
  \<^verbatim>\<open>card.number.slice(-4)\<close>, evaluated for the log line before the payment call: it
  throws unless \<^verbatim>\<open>card.number\<close> is a string or an array.
\<close>

definition slice_check :: "json option \<Rightarrow> js_error + unit" where
  "slice_check v =
     (case v of
        Some (JStr s) \<Rightarrow> Inr ()
      | Some (JArr xs) \<Rightarrow> Inr ()
      | _ \<Rightarrow> Inl (TypeError ''slice''))"

text \<open>\<^verbatim>\<open>if (x) paymentRequest.x = x\<close>: the property is sent only when truthy.\<close>

definition when_truthy :: "json option \<Rightarrow> json option" where
  "when_truthy v = (if truthy_opt v then v else None)"

definition card_order_payload :: "(string \<Rightarrow> json option) \<Rightarrow> nat \<Rightarrow> json" where
  "card_order_payload f now =
     JObj (obj [(''amount'', f ''amount''),
                (''currency'', f ''currency''),
                (''receipt'', Some (JStr (''s2s_'' @ show_nat now))),
                (''notes'', Some (JObj [(''integration'', JStr ''s2s_card'')]))])"

definition card_payment_request ::
  "(string \<Rightarrow> json option) \<Rightarrow> json option \<Rightarrow> json option \<Rightarrow> json" where
  "card_payment_request f order_id expiryYear =
     JObj (obj [(''amount'', f ''amount''),
                (''currency'', f ''currency''),
                (''order_id'', order_id),
                (''method'', f ''method''),
                (''contact'', f ''contact''),
                (''email'', f ''email''),
                (''card'', Some (JObj (obj [(''number'', props (f ''card'') ''number''),
                                            (''name'', props (f ''card'') ''name''),
                                            (''expiry_month'', props (f ''card'') ''expiry_month''),
                                            (''expiry_year'', expiryYear),
                                            (''cvv'', props (f ''card'') ''cvv'')]))),
                (''authentication'', when_truthy (f ''authentication'')),
                (''browser'', when_truthy (f ''browser'')),
                (''device_fingerprint'', when_truthy (f ''device_fingerprint'')),
                (''ip'', when_truthy (f ''ip'')),
                (''referer'', when_truthy (f ''referer'')),
                (''user_agent'', when_truthy (f ''user_agent''))])"

text \<open>The capture of a match, or \<^verbatim>\<open>null\<close>.\<close>

definition or_null :: "string option \<Rightarrow> json" where
  "or_null m = (case m of None \<Rightarrow> JNull | Some s \<Rightarrow> JStr s)"

text \<open>\<^verbatim>\<open>res.json({...paymentData, order: orderData})\<close>.\<close>

definition with_order :: "json \<Rightarrow> json \<Rightarrow> json" where
  "with_order paymentData orderData = JObj (set_prop ''order'' orderData (spread paymentData))"

text \<open>
  The reply of the non-JSON branch when a URL has been extracted:
  \<^verbatim>\<open>res.json({id: paymentId, status: 'authorized', order_id: orderData.id,
  authentication: {authentication_url: authenticationUrl}, requires_3ds: true})\<close>.
\<close>

definition card_redirect :: "json \<Rightarrow> json option \<Rightarrow> string \<Rightarrow> reply" where
  "card_redirect paymentId order_id authenticationUrl =
     Reply 200 (Json (JObj (obj
       [(''id'', Some paymentId),
        (''status'', Some (JStr ''authorized'')),
        (''order_id'', order_id),
        (''authentication'', Some (JObj [(''authentication_url'', JStr authenticationUrl)])),
        (''requires_3ds'', Some (JBool True))])))"

text \<open>
  From the \<^verbatim>\<open>content-type\<close> check to the final \<^verbatim>\<open>res.json\<close>. The JSON branch only parses;
  the non-JSON branch extracts the URL and the payment id and returns on both paths.
\<close>

definition card_payment_reply :: "json option \<Rightarrow> json \<Rightarrow> response \<Rightarrow> js_error + reply" where
  "card_payment_reply order_id orderData r =
     (if is_json_type (content_type r) then
        (case json_body r of
           None \<Rightarrow> Inl SyntaxError
         | Some paymentData \<Rightarrow>
             (if \<not> ok r then Inr (Reply (status r) (Json paymentData))
              else (case get_prop (Some paymentData) ''id'' of
                      Inl e \<Rightarrow> Inl e
                    | Inr i \<Rightarrow> Inr (Reply 200 (Json (with_order paymentData orderData))))))
      else
        (case match_url (text_body r) of
           Some authenticationUrl \<Rightarrow>
             Inr (card_redirect (or_null (match_payments authenticationUrl)) order_id
                    authenticationUrl)
         | None \<Rightarrow>
             Inr (Reply (status r)
               (error_json (Some ''INVALID_RESPONSE'')
                  ''Received HTML response but could not extract authentication URL''
                  (Some (take 200 (text_body r)))))))"

text \<open>The \<^verbatim>\<open>catch\<close> block of the two handlers of \<^verbatim>\<open>server.js\<close>.\<close>

definition payment_failed :: "js_error \<Rightarrow> reply" where
  "payment_failed e = Reply 500 (Thrown (Some ''PAYMENT_FAILED'') e)"

text \<open>Step 2 of the handler, from \<^verbatim>\<open>orderData.id\<close> on; the calls are those it issues.\<close>

definition server_card_payment_step ::
  "env \<Rightarrow> (string \<Rightarrow> json option) \<Rightarrow> json \<Rightarrow> fetch_result \<Rightarrow> (js_error + reply) \<times> call list" where
  "server_card_payment_step e f orderData pay =
     (case get_prop (Some orderData) ''id'' of
        Inl err \<Rightarrow> (Inl err, [])
      | Inr order_id \<Rightarrow>
     (case get_prop (f ''card'') ''expiry_year'' of
        Inl err \<Rightarrow> (Inl err, [])
      | Inr y \<Rightarrow>
     (case expiry_shim y of
        Inl err \<Rightarrow> (Inl err, [])
      | Inr expiryYear \<Rightarrow>
     (case slice_check (props (f ''card'') ''number'') of
        Inl err \<Rightarrow> (Inl err, [])
      | Inr u \<Rightarrow>
     (case getAuthHeader e (f ''country'') of
        Inl err \<Rightarrow> (Inl err, [])
      | Inr a \<Rightarrow>
     (case pay of
        Rejected m \<Rightarrow>
          (Inl (FetchError m),
           [Call payments_url a (card_payment_request f order_id expiryYear)])
      | Resolved r \<Rightarrow>
          (card_payment_reply order_id orderData r,
           [Call payments_url a (card_payment_request f order_id expiryYear)])))))))"

text \<open>
  \<^verbatim>\<open>if (!amount || !currency || !method || !card || !country)\<close>, the whole of the
  validation.
\<close>

definition card_fields_missing :: "(string \<Rightarrow> json option) \<Rightarrow> bool" where
  "card_fields_missing f =
     (\<not> truthy_opt (f ''amount'') \<or> \<not> truthy_opt (f ''currency'') \<or>
      \<not> truthy_opt (f ''method'') \<or> \<not> truthy_opt (f ''card'') \<or>
      \<not> truthy_opt (f ''country''))"

text \<open>
  The handler: the environment, the clock, the request body, and what the two
  \<^verbatim>\<open>fetch\<close> calls resolve to if they are made; the result is the reply and the calls
  issued, in order.
\<close>

definition server_create_payment ::
  "env \<Rightarrow> nat \<Rightarrow> json option \<Rightarrow> fetch_result \<Rightarrow> fetch_result \<Rightarrow> reply \<times> call list" where
  "server_create_payment e now body ord pay =
     (case destructure body of
        Inl err \<Rightarrow> (payment_failed err, [])
      | Inr f \<Rightarrow>
          (if card_fields_missing f
           then (Reply 400 (error_json (Some ''BAD_REQUEST'')
                   ''Missing required fields: amount, currency, country, method, card'' None), [])
           else
             (case getAuthHeader e (f ''country'') of
                Inl err \<Rightarrow> (payment_failed err, [])
              | Inr a \<Rightarrow>
                  (case await_order ord of
                     Inl err \<Rightarrow>
                       (payment_failed err, [Call orders_url a (card_order_payload f now)])
                   | Inr (Inl early) \<Rightarrow>
                       (early, [Call orders_url a (card_order_payload f now)])
                   | Inr (Inr orderData) \<Rightarrow>
                       (case server_card_payment_step e f orderData pay of
                          (Inl err, cs) \<Rightarrow>
                            (payment_failed err,
                             Call orders_url a (card_order_payload f now) # cs)
                        | (Inr rep, cs) \<Rightarrow>
                            (rep, Call orders_url a (card_order_payload f now) # cs))))))"

section \<open>The Apple Pay handler of \<^verbatim>\<open>server.js\<close>: \<^verbatim>\<open>POST /api/create-applepay-payment\<close>\<close>

text \<open>\<^verbatim>\<open>x || d\<close>.\<close>

definition or_default :: "json option \<Rightarrow> string \<Rightarrow> json option" where
  "or_default v d = (if truthy_opt v then v else Some (JStr d))"

definition applepay_order_payload :: "(string \<Rightarrow> json option) \<Rightarrow> nat \<Rightarrow> json" where
  "applepay_order_payload f now =
     JObj (obj [(''amount'', f ''amount''),
                (''currency'', f ''currency''),
                (''receipt'', Some (JStr (''s2s_applepay_'' @ show_nat now))),
                (''notes'', Some (JObj [(''integration'', JStr ''s2s_applepay'')]))])"

definition applepay_payment_request :: "(string \<Rightarrow> json option) \<Rightarrow> json option \<Rightarrow> json" where
  "applepay_payment_request f order_id =
     JObj (obj [(''amount'', f ''amount''),
                (''currency'', f ''currency''),
                (''order_id'', order_id),
                (''method'', Some (JStr ''card'')),
                (''contact'', or_default (f ''contact'') ''+60123456789''),
                (''email'', or_default (f ''email'') ''applepay@example.com''),
                (''app'', Some (JObj [(''name'', JStr ''apple_pay'')]))])"

definition applepay_redirect :: "json option \<Rightarrow> json option \<Rightarrow> json \<Rightarrow> reply" where
  "applepay_redirect i order_id url =
     Reply 200 (Json (JObj (obj
       [(''id'', i),
        (''status'', Some (JStr ''created'')),
        (''order_id'', order_id),
        (''apple_pay_url'', Some url),
        (''requires_apple_pay'', Some (JBool True)),
        (''message'', Some (JStr ''Redirect user to apple_pay_url to complete payment''))])))"

definition applepay_payment_reply :: "json option \<Rightarrow> json \<Rightarrow> response \<Rightarrow> js_error + reply" where
  "applepay_payment_reply order_id orderData r =
     (if is_json_type (content_type r) then
        (case json_body r of
           None \<Rightarrow> Inl SyntaxError
         | Some paymentResponseData \<Rightarrow>
             (case next_redirect paymentResponseData of
                Inl e \<Rightarrow> Inl e
              | Inr (Some url) \<Rightarrow>
                  Inr (applepay_redirect (props (Some paymentResponseData) ''razorpay_payment_id'')
                         order_id url)
              | Inr None \<Rightarrow>
                  (if \<not> ok r then Inr (Reply (status r) (Json paymentResponseData))
                   else Inr (Reply 200 (Json (with_order paymentResponseData orderData))))))
      else
        (case match_url (text_body r) of
           Some applePayUrl \<Rightarrow>
             Inr (applepay_redirect (Some (or_null (match_payments applePayUrl))) order_id
                    (JStr applePayUrl))
         | None \<Rightarrow>
             Inr (Reply (status r)
               (error_json (Some ''INVALID_RESPONSE'')
                  ''Received HTML response but could not extract Apple Pay URL''
                  (Some (take 200 (text_body r)))))))"

definition server_applepay_payment_step ::
  "env \<Rightarrow> (string \<Rightarrow> json option) \<Rightarrow> json \<Rightarrow> fetch_result \<Rightarrow> (js_error + reply) \<times> call list" where
  "server_applepay_payment_step e f orderData pay =
     (case get_prop (Some orderData) ''id'' of
        Inl err \<Rightarrow> (Inl err, [])
      | Inr order_id \<Rightarrow>
     (case getAuthHeader e (f ''country'') of
        Inl err \<Rightarrow> (Inl err, [])
      | Inr a \<Rightarrow>
     (case pay of
        Rejected m \<Rightarrow>
          (Inl (FetchError m), [Call payments_url a (applepay_payment_request f order_id)])
      | Resolved r \<Rightarrow>
          (applepay_payment_reply order_id orderData r,
           [Call payments_url a (applepay_payment_request f order_id)]))))"

text \<open>\<^verbatim>\<open>if (!amount || !currency || !country)\<close>.\<close>

definition applepay_fields_missing :: "(string \<Rightarrow> json option) \<Rightarrow> bool" where
  "applepay_fields_missing f =
     (\<not> truthy_opt (f ''amount'') \<or> \<not> truthy_opt (f ''currency'') \<or>
      \<not> truthy_opt (f ''country''))"

definition server_create_applepay_payment ::
  "env \<Rightarrow> nat \<Rightarrow> json option \<Rightarrow> fetch_result \<Rightarrow> fetch_result \<Rightarrow> reply \<times> call list" where
  "server_create_applepay_payment e now body ord pay =
     (case destructure body of
        Inl err \<Rightarrow> (payment_failed err, [])
      | Inr f \<Rightarrow>
          (if applepay_fields_missing f
           then (Reply 400 (error_json (Some ''BAD_REQUEST'')
                   ''Missing required fields: amount, currency, country'' None), [])
           else
             (case getAuthHeader e (f ''country'') of
                Inl err \<Rightarrow> (payment_failed err, [])
              | Inr a \<Rightarrow>
                  (case await_order ord of
                     Inl err \<Rightarrow>
                       (payment_failed err, [Call orders_url a (applepay_order_payload f now)])
                   | Inr (Inl early) \<Rightarrow>
                       (early, [Call orders_url a (applepay_order_payload f now)])
                   | Inr (Inr orderData) \<Rightarrow>
                       (case server_applepay_payment_step e f orderData pay of
                          (Inl err, cs) \<Rightarrow>
                            (payment_failed err,
                             Call orders_url a (applepay_order_payload f now) # cs)
                        | (Inr rep, cs) \<Rightarrow>
                            (rep, Call orders_url a (applepay_order_payload f now) # cs))))))"

section \<open>The serverless handlers: \<^verbatim>\<open>api/create-payment.js\<close> and its Apple Pay sibling\<close>

text \<open>The \<^verbatim>\<open>catch\<close> block of the serverless handlers.\<close>

definition api_failed :: "js_error \<Rightarrow> reply" where
  "api_failed e = Reply 500 (Thrown None e)"

text \<open>
  \<^verbatim>\<open>const config = RAZORPAY_CONFIGS[country];
  if (!config || !config.keyId || !config.keySecret) return res.status(400)...\<close>:
  the thrown error of the key conversion, the early reply, or the configuration.
\<close>

definition api_config :: "env \<Rightarrow> json option \<Rightarrow> js_error + (reply + config)" where
  "api_config e country =
     (case to_str_opt country of
        Inl err \<Rightarrow> Inl err
      | Inr key \<Rightarrow>
          (case config_at (RAZORPAY_CONFIGS_api e) key of
             None \<Rightarrow>
               Inr (Inl (Reply 400
                 (error_json None ''Invalid country or missing credentials'' None)))
           | Some c \<Rightarrow>
               (if \<not> present (keyId c) \<or> \<not> present (keySecret c)
                then Inr (Inl (Reply 400
                       (error_json None ''Invalid country or missing credentials'' None)))
                else Inr (Inr c))))"

definition api_order_payload :: "(string \<Rightarrow> json option) \<Rightarrow> json" where
  "api_order_payload f =
     JObj (obj [(''amount'', f ''amount''),
                (''currency'', f ''currency''),
                (''payment_capture'', Some (JNum 1))])"

definition api_card_payload :: "(string \<Rightarrow> json option) \<Rightarrow> json option \<Rightarrow> json" where
  "api_card_payload f order_id =
     JObj (obj [(''amount'', f ''amount''),
                (''currency'', f ''currency''),
                (''order_id'', order_id),
                (''method'', f ''method''),
                (''card'', f ''card''),
                (''contact'', f ''contact''),
                (''email'', f ''email''),
                (''authentication'', f ''authentication''),
                (''browser'', f ''browser''),
                (''ip'', f ''ip''),
                (''referer'', f ''referer''),
                (''user_agent'', f ''user_agent''),
                (''device_fingerprint'', when_truthy (f ''device_fingerprint''))])"

definition api_applepay_payload :: "(string \<Rightarrow> json option) \<Rightarrow> json option \<Rightarrow> json" where
  "api_applepay_payload f order_id =
     JObj (obj [(''amount'', f ''amount''),
                (''currency'', f ''currency''),
                (''order_id'', order_id),
                (''method'', Some (JStr ''card'')),
                (''app'', Some (JObj [(''name'', JStr ''apple_pay'')])),
                (''contact'', f ''contact''),
                (''email'', f ''email'')])"

text \<open>The two shapes of a redirect reply.\<close>

definition api_card_redirect :: "json option \<Rightarrow> json \<Rightarrow> reply" where
  "api_card_redirect i url =
     Reply 200 (Json (JObj (obj
       [(''id'', i),
        (''authentication'', Some (JObj [(''authentication_url'', url)]))])))"

definition api_applepay_redirect :: "json option \<Rightarrow> json \<Rightarrow> reply" where
  "api_applepay_redirect i url =
     Reply 200 (Json (JObj (obj
       [(''id'', i),
        (''apple_pay_url'', Some url),
        (''requires_apple_pay'', Some (JBool True))])))"

text \<open>\<^verbatim>\<open>paymentIdMatch ? paymentIdMatch[1] : 'unknown'\<close>.\<close>

definition or_unknown :: "string option \<Rightarrow> json" where
  "or_unknown m = (case m of None \<Rightarrow> JStr ''unknown'' | Some s \<Rightarrow> JStr s)"

text \<open>
  From the \<^verbatim>\<open>content-type\<close> check on; the two handlers differ in the redirect shape
  and in the description of the last reply.
\<close>

definition api_payment_reply ::
  "(json option \<Rightarrow> json \<Rightarrow> reply) \<Rightarrow> string \<Rightarrow> response \<Rightarrow> js_error + reply" where
  "api_payment_reply redirect description r =
     (if is_json_type (content_type r) then
        (case json_body r of
           None \<Rightarrow> Inl SyntaxError
         | Some paymentResponseData \<Rightarrow>
             (case next_redirect paymentResponseData of
                Inl e \<Rightarrow> Inl e
              | Inr (Some url) \<Rightarrow>
                  Inr (redirect (props (Some paymentResponseData) ''razorpay_payment_id'') url)
              | Inr None \<Rightarrow> Inr (Reply 200 (Json paymentResponseData))))
      else
        (case match_url_quoted (text_body r) of
           Some authUrl \<Rightarrow>
             Inr (redirect (Some (or_unknown (match_payment_id (text_body r)))) (JStr authUrl))
         | None \<Rightarrow> Inr (Reply 500 (error_json None description None))))"

text \<open>The body of the \<^verbatim>\<open>try\<close> block, parametrised by what differs between the two.\<close>

definition api_try ::
  "((string \<Rightarrow> json option) \<Rightarrow> json option \<Rightarrow> json) \<Rightarrow> (json option \<Rightarrow> json \<Rightarrow> reply) \<Rightarrow>
   string \<Rightarrow> env \<Rightarrow> json option \<Rightarrow> fetch_result \<Rightarrow> fetch_result \<Rightarrow> (js_error + reply) \<times> call list" where
  "api_try payload redirect description e body ord pay =
     (case destructure body of
        Inl err \<Rightarrow> (Inl err, [])
      | Inr f \<Rightarrow>
     (case api_config e (f ''country'') of
        Inl err \<Rightarrow> (Inl err, [])
      | Inr (Inl early) \<Rightarrow> (Inr early, [])
      | Inr (Inr c) \<Rightarrow>
     (case await_order ord of
        Inl err \<Rightarrow> (Inl err, [Call orders_url (Basic (credentials c)) (api_order_payload f)])
      | Inr (Inl early) \<Rightarrow>
          (Inr early, [Call orders_url (Basic (credentials c)) (api_order_payload f)])
      | Inr (Inr orderData) \<Rightarrow>
     (case get_prop (Some orderData) ''id'' of
        Inl err \<Rightarrow> (Inl err, [Call orders_url (Basic (credentials c)) (api_order_payload f)])
      | Inr order_id \<Rightarrow>
     (case pay of
        Rejected m \<Rightarrow>
          (Inl (FetchError m),
           [Call orders_url (Basic (credentials c)) (api_order_payload f),
            Call payments_url (Basic (credentials c)) (payload f order_id)])
      | Resolved r \<Rightarrow>
          (api_payment_reply redirect description r,
           [Call orders_url (Basic (credentials c)) (api_order_payload f),
            Call payments_url (Basic (credentials c)) (payload f order_id)]))))))"

text \<open>
  \<^verbatim>\<open>module.exports = async (req, res) => ...\<close>: the method checks, then the
  \<^verbatim>\<open>try\<close> block and its \<^verbatim>\<open>catch\<close>.
\<close>

definition api_handler ::
  "((string \<Rightarrow> json option) \<Rightarrow> json option \<Rightarrow> json) \<Rightarrow> (json option \<Rightarrow> json \<Rightarrow> reply) \<Rightarrow>
   string \<Rightarrow> env \<Rightarrow> string \<Rightarrow> json option \<Rightarrow> fetch_result \<Rightarrow> fetch_result \<Rightarrow> reply \<times> call list" where
  "api_handler payload redirect description e req_method body ord pay =
     (if req_method = ''OPTIONS'' then (Reply 200 Empty, [])
      else if req_method \<noteq> ''POST''
      then (Reply 405 (Json (JObj [(''error'', JStr ''Method not allowed'')])), [])
      else (case api_try payload redirect description e body ord pay of
              (Inl err, cs) \<Rightarrow> (api_failed err, cs)
            | (Inr rep, cs) \<Rightarrow> (rep, cs)))"

definition api_create_payment ::
  "env \<Rightarrow> string \<Rightarrow> json option \<Rightarrow> fetch_result \<Rightarrow> fetch_result \<Rightarrow> reply \<times> call list" where
  "api_create_payment =
     api_handler api_card_payload api_card_redirect ''Failed to parse payment response''"

definition api_create_applepay_payment ::
  "env \<Rightarrow> string \<Rightarrow> json option \<Rightarrow> fetch_result \<Rightarrow> fetch_result \<Rightarrow> reply \<times> call list" where
  "api_create_applepay_payment =
     api_handler api_applepay_payload api_applepay_redirect ''Failed to parse Apple Pay response''"

section \<open>Observations on a run, and sample inputs\<close>

text \<open>Whether a run issued the order-creation call, and the payment-creation call.\<close>

definition order_call_issued :: "reply \<times> call list \<Rightarrow> bool" where
  "order_call_issued out = list_ex (\<lambda>c. endpoint c = orders_url) (snd out)"

definition payment_call_issued :: "reply \<times> call list \<Rightarrow> bool" where
  "payment_call_issued out = list_ex (\<lambda>c. endpoint c = payments_url) (snd out)"

text \<open>
  The four handlers under one signature: the environment, the clock, the request
  method, the body and the two gateway results. Express routes the two handlers of
  \<^verbatim>\<open>server.js\<close> by \<^verbatim>\<open>app.post\<close>, so they do not look at the method; the serverless
  handlers do not read the clock.
\<close>

definition handlers ::
  "(env \<Rightarrow> nat \<Rightarrow> string \<Rightarrow> json option \<Rightarrow> fetch_result \<Rightarrow> fetch_result \<Rightarrow> reply \<times> call list) list" where
  "handlers =
     [\<lambda>e now m. server_create_payment e now,
      \<lambda>e now m. server_create_applepay_payment e now,
      \<lambda>e now m. api_create_payment e m,
      \<lambda>e now m. api_create_applepay_payment e m]"

text \<open>The regions of the configuration tables and the variables that configure one.\<close>

definition regions :: "string list" where
  "regions = [''MY'', ''SG'', ''US'', ''IN'']"

definition id_var :: "string \<Rightarrow> string" where
  "id_var region = ''RAZORPAY_KEY_ID_'' @ region"

definition secret_var :: "string \<Rightarrow> string" where
  "secret_var region = ''RAZORPAY_KEY_SECRET_'' @ region"

text \<open>An environment in which only India is configured, with both values.\<close>

definition demo_env :: env where
  "demo_env =
     (\<lambda>k. if k = ''RAZORPAY_KEY_ID_IN'' then Some ''rzp_test_1''
          else if k = ''RAZORPAY_KEY_SECRET_IN'' then Some ''s3cret'' else None)"

text \<open>An environment in which India has a secret but no identifier.\<close>

definition secret_only_env :: env where
  "secret_only_env = (\<lambda>k. if k = ''RAZORPAY_KEY_SECRET_IN'' then Some ''s3cret'' else None)"

definition demo_card :: json where
  "demo_card =
     JObj [(''number'', JStr ''4111111111111111''), (''name'', JStr ''A B''),
           (''expiry_month'', JStr ''12''), (''expiry_year'', JStr ''27''),
           (''cvv'', JStr ''123'')]"

definition demo_request :: "string \<Rightarrow> json \<Rightarrow> json option" where
  "demo_request region c =
     Some (JObj [(''amount'', JNum 1000), (''currency'', JStr ''INR''),
                 (''country'', JStr region), (''method'', JStr ''card''), (''card'', c)])"

definition demo_wallet_request :: "(string \<times> json) list \<Rightarrow> json option" where
  "demo_wallet_request extra =
     Some (JObj ([(''amount'', JNum 1000), (''currency'', JStr ''INR''),
                  (''country'', JStr ''IN'')] @ extra))"

definition demo_order :: fetch_result where
  "demo_order =
     Resolved (Response 200 (Some ''application/json'') [] (Some (JObj [(''id'', JStr ''order_abc'')])))"

definition json_response :: "nat \<Rightarrow> json \<Rightarrow> response" where
  "json_response st j = Response st (Some ''application/json; charset=utf-8'') [] (Some j)"

definition html_response :: "nat \<Rightarrow> string \<Rightarrow> response" where
  "html_response st t = Response st (Some ''text/html'') t None"

text \<open>A response that declares JSON and carries a body that does not parse.\<close>

definition unparsed_json_response :: "nat \<Rightarrow> string \<Rightarrow> response" where
  "unparsed_json_response st t = Response st (Some ''application/json'') t None"

section \<open>Basic facts about the model\<close>

lemma urls_differ: "orders_url \<noteq> payments_url"
  by (simp add: orders_url_def payments_url_def)

lemma destructure_props:
  "destructure body = Inr f \<Longrightarrow> f = props body"
  by (auto simp: destructure_def split: sum.splits)

lemma destructure_ok:
  "body \<noteq> None \<Longrightarrow> body \<noteq> Some JNull \<Longrightarrow> destructure body = Inr (props body)"
  by (cases body; cases "the body") (auto simp: destructure_def)

lemma destructure_nonnull:
  "destructure body = Inr f \<Longrightarrow> body \<noteq> None \<and> body \<noteq> Some JNull"
  by (cases body) (auto simp: destructure_def)

lemma get_prop_truthy:
  "truthy_opt v \<Longrightarrow> get_prop v k = Inr (props v k)"
  by (cases v; cases "the v") (auto simp: truthy_opt_def props_def)

lemma get_prop_props:
  "get_prop v k = Inr x \<Longrightarrow> props v k = x"
  by (simp add: props_def)

lemma obj_absent: "k \<notin> fst ` set kvs \<Longrightarrow> map_of (obj kvs) k = None"
  by (induction kvs rule: obj.induct) auto

lemma map_of_obj:
  "distinct (map fst kvs) \<Longrightarrow>
   map_of (obj kvs) k = (case map_of kvs k of None \<Rightarrow> None | Some v \<Rightarrow> v)"
  by (induction kvs rule: obj.induct) (auto simp: obj_absent)

lemma search_none:
  "\<not> str_includes s lit \<Longrightarrow> search (lit_run lit cls) s = None"
proof (induction s)
  case Nil
  then show ?case by (auto simp: lit_run_def)
next
  case (Cons c cs)
  then show ?case by (auto simp: lit_run_def)
qed

lemma prefix_shorter:
  assumes "prefix lit (xs @ ys)" and "length lit \<le> length xs"
  shows "prefix lit xs"
  using assms by (metis prefix_length_prefix prefixI)

lemma search_first:
  assumes "\<not> str_includes (pre @ butlast lit) lit" and "lit \<noteq> []"
    and "takeWhile cls rest \<noteq> []"
  shows "search (lit_run lit cls) (pre @ lit @ rest) = Some (takeWhile cls rest)"
  using assms(1)
proof (induction pre)
  case Nil
  show ?case
  proof (cases "lit @ rest")
    case Nil
    with assms(2) show ?thesis by simp
  next
    case (Cons c cs)
    have "lit_run lit cls (lit @ rest) = Some (takeWhile cls rest)"
      using assms(3) by (simp add: lit_run_def)
    with Cons show ?thesis by simp
  qed
next
  case (Cons c pre)
  have np: "\<not> prefix lit (c # pre @ butlast lit)" and rec: "\<not> str_includes (pre @ butlast lit) lit"
    using Cons.prems by auto
  have "\<not> prefix lit (c # pre @ lit @ rest)"
  proof
    assume p: "prefix lit (c # pre @ lit @ rest)"
    have e: "c # pre @ lit @ rest = (c # pre @ butlast lit) @ ([last lit] @ rest)"
      using assms(2) by simp
    have "length lit \<le> length (c # pre @ butlast lit)" by simp
    with p e have "prefix lit (c # pre @ butlast lit)"
      using prefix_shorter by metis
    with np show False ..
  qed
  then have "lit_run lit cls (c # pre @ lit @ rest) = None"
    by (simp add: lit_run_def)
  with Cons.IH[OF rec] show ?case by simp
qed

lemma find_redirect_first:
  assumes "\<forall>p \<in> set pre. p \<noteq> JNull \<and> props (Some p) ''action'' \<noteq> Some (JStr ''redirect'')"
    and "props (Some a) ''action'' = Some (JStr ''redirect'')"
  shows "find_redirect (pre @ a # post) = Inr (Some a)"
  using assms(1)
proof (induction pre)
  case Nil
  have "a \<noteq> JNull" using assms(2) by (auto simp: props_def)
  then obtain v where "get_prop (Some a) ''action'' = Inr v"
    by (cases a) auto
  with assms(2) show ?case by (simp add: props_def)
next
  case (Cons p pre)
  then have "p \<noteq> JNull" and n: "props (Some p) ''action'' \<noteq> Some (JStr ''redirect'')" by auto
  then obtain v where g: "get_prop (Some p) ''action'' = Inr v"
    by (cases p) auto
  with n have "v \<noteq> Some (JStr ''redirect'')" by (simp add: props_def)
  with g Cons show ?case by simp
qed


lemma server_card_issued:
  assumes "payment_call_issued (server_create_payment e now body ord pay)"
  shows "\<exists>a od oid y ey.
           body \<noteq> None \<and> body \<noteq> Some JNull \<and>
           \<not> card_fields_missing (props body) \<and>
           getAuthHeader e (props body ''country'') = Inr a \<and>
           await_order ord = Inr (Inr od) \<and>
           get_prop (Some od) ''id'' = Inr oid \<and>
           get_prop (props body ''card'') ''expiry_year'' = Inr y \<and>
           expiry_shim y = Inr ey \<and>
           slice_check (props (props body ''card'') ''number'') = Inr () \<and>
           snd (server_create_payment e now body ord pay) =
             [Call orders_url a (card_order_payload (props body) now),
              Call payments_url a (card_payment_request (props body) oid ey)] \<and>
           fst (server_create_payment e now body ord pay) =
             (case pay of
                Rejected m \<Rightarrow> payment_failed (FetchError m)
              | Resolved r \<Rightarrow>
                  (case card_payment_reply oid od r of
                     Inl err \<Rightarrow> payment_failed err
                   | Inr rep \<Rightarrow> rep))"
proof -
  obtain f where d: "destructure body = Inr f"
    using assms unfolding payment_call_issued_def server_create_payment_def
    by (auto split: sum.splits)
  then have f: "f = props body" by (rule destructure_props)
  have b: "body \<noteq> None \<and> body \<noteq> Some JNull"
    using d by (rule destructure_nonnull)
  show ?thesis
    using assms urls_differ d b
    unfolding payment_call_issued_def server_create_payment_def server_card_payment_step_def f
    by (auto split: sum.splits if_splits fetch_result.splits prod.splits)
qed

lemma server_applepay_issued:
  assumes "payment_call_issued (server_create_applepay_payment e now body ord pay)"
  shows "\<exists>a od oid.
           body \<noteq> None \<and> body \<noteq> Some JNull \<and>
           \<not> applepay_fields_missing (props body) \<and>
           getAuthHeader e (props body ''country'') = Inr a \<and>
           await_order ord = Inr (Inr od) \<and>
           get_prop (Some od) ''id'' = Inr oid \<and>
           snd (server_create_applepay_payment e now body ord pay) =
             [Call orders_url a (applepay_order_payload (props body) now),
              Call payments_url a (applepay_payment_request (props body) oid)] \<and>
           fst (server_create_applepay_payment e now body ord pay) =
             (case pay of
                Rejected m \<Rightarrow> payment_failed (FetchError m)
              | Resolved r \<Rightarrow>
                  (case applepay_payment_reply oid od r of
                     Inl err \<Rightarrow> payment_failed err
                   | Inr rep \<Rightarrow> rep))"
proof -
  obtain f where d: "destructure body = Inr f"
    using assms unfolding payment_call_issued_def server_create_applepay_payment_def
    by (auto split: sum.splits)
  then have f: "f = props body" by (rule destructure_props)
  have b: "body \<noteq> None \<and> body \<noteq> Some JNull"
    using d by (rule destructure_nonnull)
  show ?thesis
    using assms urls_differ d b
    unfolding payment_call_issued_def server_create_applepay_payment_def
      server_applepay_payment_step_def f
    by (auto split: sum.splits if_splits fetch_result.splits prod.splits)
qed

lemma api_issued:
  assumes "payment_call_issued (api_handler payload redirect description e m body ord pay)"
  shows "\<exists>c od oid.
           m = ''POST'' \<and> body \<noteq> None \<and> body \<noteq> Some JNull \<and>
           api_config e (props body ''country'') = Inr (Inr c) \<and>
           await_order ord = Inr (Inr od) \<and>
           get_prop (Some od) ''id'' = Inr oid \<and>
           snd (api_handler payload redirect description e m body ord pay) =
             [Call orders_url (Basic (credentials c)) (api_order_payload (props body)),
              Call payments_url (Basic (credentials c)) (payload (props body) oid)] \<and>
           fst (api_handler payload redirect description e m body ord pay) =
             (case pay of
                Rejected msg \<Rightarrow> api_failed (FetchError msg)
              | Resolved r \<Rightarrow>
                  (case api_payment_reply redirect description r of
                     Inl err \<Rightarrow> api_failed err
                   | Inr rep \<Rightarrow> rep))"
proof -
  have m: "m = ''POST''"
    using assms unfolding payment_call_issued_def api_handler_def
    by (auto split: if_splits)
  obtain f where d: "destructure body = Inr f"
    using assms unfolding payment_call_issued_def api_handler_def api_try_def m
    by (auto split: sum.splits)
  then have f: "f = props body" by (rule destructure_props)
  have b: "body \<noteq> None \<and> body \<noteq> Some JNull"
    using d by (rule destructure_nonnull)
  show ?thesis
    using assms urls_differ d b
    unfolding payment_call_issued_def api_handler_def api_try_def f m
    by (auto split: sum.splits if_splits fetch_result.splits prod.splits)
qed

lemma truthy_not_null: "truthy_opt (props body k) \<Longrightarrow> body \<noteq> None \<and> body \<noteq> Some JNull"
  by (cases body) (auto simp: truthy_opt_def props_def)

section \<open>C10: a card without \<^verbatim>\<open>expiry_year\<close> fails after the order has been created\<close>

text \<open>
  Claim C10. The validation of the card handler of \<^verbatim>\<open>server.js\<close> tests the card object
  only for presence. For every request that passes it (amount, currency, method, card
  and country truthy) and whose card has no \<^verbatim>\<open>expiry_year\<close>, in a configured region and
  with an order creation that succeeds, reading \<^verbatim>\<open>expiryYear.length\<close> throws: the caller
  receives 500 with code \<^verbatim>\<open>PAYMENT_FAILED\<close>, not a 400; the order-creation call has been
  issued and the payment-creation call has not.
\<close>

theorem missing_expiry_year_fails_after_order:
  assumes valid: "\<not> card_fields_missing (props body)"
    and lacks: "props (props body ''card'') ''expiry_year'' = None"
    and creds: "getAuthHeader e (props body ''country'') = Inr a"
    and order: "ord = Resolved r" "ok r" "json_body r = Some od" "od \<noteq> JNull"
  shows "server_create_payment e now body ord pay =
           (Reply 500 (Thrown (Some ''PAYMENT_FAILED'') (TypeError ''length'')),
            [Call orders_url a (card_order_payload (props body) now)]) \<and>
         order_call_issued (server_create_payment e now body ord pay) \<and>
         \<not> payment_call_issued (server_create_payment e now body ord pay)"
proof -
  have card: "truthy_opt (props body ''card'')" and amount: "truthy_opt (props body ''amount'')"
    using valid by (auto simp: card_fields_missing_def)
  have d: "destructure body = Inr (props body)"
    using truthy_not_null[OF amount] by (simp add: destructure_ok)
  have ao: "await_order ord = Inr (Inr od)"
    using order by (simp add: await_order_def)
  obtain oid where oid: "get_prop (Some od) ''id'' = Inr oid"
    using order(4) by (cases od) auto
  have y: "get_prop (props body ''card'') ''expiry_year'' = Inr None"
    using get_prop_truthy[OF card] lacks by simp
  have step: "server_card_payment_step e (props body) od pay = (Inl (TypeError ''length''), [])"
    by (simp add: server_card_payment_step_def oid y expiry_shim_def)
  have run: "server_create_payment e now body ord pay =
           (Reply 500 (Thrown (Some ''PAYMENT_FAILED'') (TypeError ''length'')),
            [Call orders_url a (card_order_payload (props body) now)])"
    using valid by (simp add: server_create_payment_def d creds ao step payment_failed_def)
  show ?thesis
    by (simp add: run order_call_issued_def payment_call_issued_def urls_differ)
qed

theorem missing_expiry_year_fails_after_order_witness:
  "server_create_payment demo_env 0 (demo_request ''IN'' (JObj [(''number'', JStr ''4111'')]))
     demo_order (Rejected []) =
   (Reply 500 (Thrown (Some ''PAYMENT_FAILED'') (TypeError ''length'')),
    [Call orders_url (Basic ''rzp_test_1:s3cret'')
       (card_order_payload (props (demo_request ''IN'' (JObj [(''number'', JStr ''4111'')]))) 0)])"
proof -
  let ?b = "demo_request ''IN'' (JObj [(''number'', JStr ''4111'')])"
  have 1: "\<not> card_fields_missing (props ?b)"
    by (simp add: card_fields_missing_def demo_request_def props_def truthy_opt_def)
  have 2: "props (props ?b ''card'') ''expiry_year'' = None"
    by (simp add: demo_request_def props_def)
  have 3: "getAuthHeader demo_env (props ?b ''country'') = Inr (Basic ''rzp_test_1:s3cret'')"
    by (simp add: getAuthHeader_def demo_request_def props_def to_str_opt_def config_at_def
        RAZORPAY_CONFIGS_server_def demo_env_def or_empty_def present_def credentials_def)
  have 4: "ok (Response 200 (Some ''application/json'') [] (Some (JObj [(''id'', JStr ''order_abc'')])))"
    by (simp add: ok_def)
  show ?thesis
    using missing_expiry_year_fails_after_order[OF 1 2 3 demo_order_def 4, of "JObj [(''id'', JStr ''order_abc'')]" 0 "Rejected []"]
    by simp
qed

section \<open>Evaluation on concrete inputs\<close>

lemmas run_defs =
  server_create_payment_def server_card_payment_step_def card_payment_reply_def
  server_create_applepay_payment_def server_applepay_payment_step_def applepay_payment_reply_def
  api_create_payment_def api_create_applepay_payment_def api_handler_def api_try_def
  api_payment_reply_def api_config_def api_failed_def payment_failed_def
  card_fields_missing_def applepay_fields_missing_def
  destructure_def props_def truthy_opt_def await_order_def ok_def is_json_type_def
  getAuthHeader_def getConfig_def to_str_opt_def config_at_def
  RAZORPAY_CONFIGS_server_def RAZORPAY_CONFIGS_api_def or_empty_def present_def credentials_def
  expiry_shim_def slice_check_def next_redirect_def
  order_call_issued_def payment_call_issued_def orders_url_def payments_url_def
  demo_env_def secret_only_env_def demo_request_def demo_wallet_request_def demo_card_def
  demo_order_def
  json_response_def html_response_def

lemmas payload_defs =
  card_payment_request_def card_order_payload_def applepay_payment_request_def
  applepay_order_payload_def api_card_payload_def api_applepay_payload_def api_order_payload_def
  when_truthy_def or_default_def with_order_def or_null_def or_unknown_def error_json_def
  api_card_redirect_def api_applepay_redirect_def applepay_redirect_def card_redirect_def

lemmas match_defs =
  match_url_def match_url_quoted_def lit_run_quoted_def match_payments_def match_payment_id_def
  lit_run_id_def lit_run_def not_quote_def not_slash_def quote_def word_char_def

section \<open>C2: a failed order creation ends the flow\<close>

lemma props_Some_not_null: "props body k = Some v \<Longrightarrow> body \<noteq> None \<and> body \<noteq> Some JNull"
  by (cases body) (auto simp: props_def)

lemma await_order_created:
  "await_order ord = Inr (Inr od) \<longleftrightarrow> (\<exists>r. ord = Resolved r \<and> ok r \<and> json_body r = Some od)"
  by (auto simp: await_order_def split: fetch_result.splits option.splits)

lemma await_order_failed:
  "ord = Resolved r \<Longrightarrow> \<not> ok r \<Longrightarrow> json_body r = Some j \<Longrightarrow>
   await_order ord = Inr (Inl (Reply (status r) (Json j)))"
  by (simp add: await_order_def)

lemma await_order_unparsed:
  "ord = Resolved r \<Longrightarrow> json_body r = None \<Longrightarrow> await_order ord = Inl SyntaxError"
  by (simp add: await_order_def)

lemma handler_cases:
  assumes "h \<in> set handlers"
  obtains "h = (\<lambda>e now m. server_create_payment e now)"
  | "h = (\<lambda>e now m. server_create_applepay_payment e now)"
  | "h = (\<lambda>e now m. api_create_payment e m)"
  | "h = (\<lambda>e now m. api_create_applepay_payment e m)"
  using assms by (auto simp: handlers_def)

lemma order_failed_reply:
  assumes "h \<in> set handlers" and "await_order ord = Inr (Inl early)"
    and "order_call_issued (h e now m body ord pay)"
  shows "fst (h e now m body ord pay) = early \<and> \<not> payment_call_issued (h e now m body ord pay)"
  using assms(1)
proof (cases rule: handler_cases)
  case 1
  with assms(2,3) urls_differ show ?thesis
    unfolding order_call_issued_def payment_call_issued_def server_create_payment_def
    by (auto split: sum.splits if_splits)
next
  case 2
  with assms(2,3) urls_differ show ?thesis
    unfolding order_call_issued_def payment_call_issued_def server_create_applepay_payment_def
    by (auto split: sum.splits if_splits)
next
  case 3
  with assms(2,3) urls_differ show ?thesis
    unfolding order_call_issued_def payment_call_issued_def api_create_payment_def
      api_handler_def api_try_def
    by (auto split: sum.splits if_splits)
next
  case 4
  with assms(2,3) urls_differ show ?thesis
    unfolding order_call_issued_def payment_call_issued_def api_create_applepay_payment_def
      api_handler_def api_try_def
    by (auto split: sum.splits if_splits)
qed

lemma order_thrown_reply:
  assumes "h \<in> set handlers" and "await_order ord = Inl err"
  shows "\<not> payment_call_issued (h e now m body ord pay) \<and>
         (order_call_issued (h e now m body ord pay) \<longrightarrow>
            reply_status (fst (h e now m body ord pay)) = 500)"
  using assms(1)
proof (cases rule: handler_cases)
  case 1
  with assms(2) urls_differ show ?thesis
    unfolding order_call_issued_def payment_call_issued_def server_create_payment_def
    by (auto simp: payment_failed_def split: sum.splits if_splits)
next
  case 2
  with assms(2) urls_differ show ?thesis
    unfolding order_call_issued_def payment_call_issued_def server_create_applepay_payment_def
    by (auto simp: payment_failed_def split: sum.splits if_splits)
next
  case 3
  with assms(2) urls_differ show ?thesis
    unfolding order_call_issued_def payment_call_issued_def api_create_payment_def
      api_handler_def api_try_def
    by (auto simp: api_failed_def split: sum.splits if_splits)
next
  case 4
  with assms(2) urls_differ show ?thesis
    unfolding order_call_issued_def payment_call_issued_def api_create_applepay_payment_def
      api_handler_def api_try_def
    by (auto simp: api_failed_def split: sum.splits if_splits)
qed

lemma card_request_order_id:
  "props (Some (card_payment_request f oid ey)) ''order_id'' = oid"
  by (simp add: card_payment_request_def props_def map_of_obj)

lemma applepay_request_order_id:
  "props (Some (applepay_payment_request f oid)) ''order_id'' = oid"
  by (simp add: applepay_payment_request_def props_def map_of_obj)

lemma api_card_payload_order_id:
  "props (Some (api_card_payload f oid)) ''order_id'' = oid"
  by (simp add: api_card_payload_def props_def map_of_obj)

lemma api_applepay_payload_order_id:
  "props (Some (api_applepay_payload f oid)) ''order_id'' = oid"
  by (simp add: api_applepay_payload_def props_def map_of_obj)

lemma get_prop_not_null: "get_prop (Some od) k = Inr v \<Longrightarrow> od \<noteq> JNull"
  by (cases od) auto

lemma payment_needs_order:
  assumes "h \<in> set handlers" and "payment_call_issued (h e now m body ord pay)"
  shows "\<exists>od. await_order ord = Inr (Inr od) \<and> od \<noteq> JNull \<and>
           (\<forall>c \<in> set (snd (h e now m body ord pay)).
              endpoint c = payments_url \<longrightarrow>
              props (Some (sent c)) ''order_id'' = props (Some od) ''id'')"
  using assms(1)
proof (cases rule: handler_cases)
  case 1
  with assms(2) have "payment_call_issued (server_create_payment e now body ord pay)" by simp
  from server_card_issued[OF this] 1 urls_differ show ?thesis
    by (auto simp: card_request_order_id get_prop_props dest: get_prop_not_null)
next
  case 2
  with assms(2) have "payment_call_issued (server_create_applepay_payment e now body ord pay)"
    by simp
  from server_applepay_issued[OF this] 2 urls_differ show ?thesis
    by (auto simp: applepay_request_order_id get_prop_props dest: get_prop_not_null)
next
  case 3
  with assms(2) have "payment_call_issued (api_handler api_card_payload api_card_redirect
      ''Failed to parse payment response'' e m body ord pay)"
    by (simp add: api_create_payment_def)
  from api_issued[OF this] 3 urls_differ show ?thesis
    by (auto simp: api_create_payment_def api_card_payload_order_id get_prop_props
        dest: get_prop_not_null)
next
  case 4
  with assms(2) have "payment_call_issued (api_handler api_applepay_payload api_applepay_redirect
      ''Failed to parse Apple Pay response'' e m body ord pay)"
    by (simp add: api_create_applepay_payment_def)
  from api_issued[OF this] 4 urls_differ show ?thesis
    by (auto simp: api_create_applepay_payment_def api_applepay_payload_order_id get_prop_props
        dest: get_prop_not_null)
qed

text \<open>
  Claim C2, as amended. In each of the four handlers: when the order-creation response
  has a non-success status and a body that parses as JSON, the caller receives that
  status and that payload unchanged, and the payment-creation call is not issued; when
  the body does not parse, \<^verbatim>\<open>json()\<close> throws, the caller receives 500 and the
  payment-creation call is not issued either; the payment-creation call is issued only
  after an order response with a success status and a JSON body other than \<^verbatim>\<open>null\<close>,
  and the \<^verbatim>\<open>order_id\<close> it sends is the \<^verbatim>\<open>id\<close> of that body (absent when the body has
  none).
\<close>

theorem order_failure_propagates:
  assumes "h \<in> set handlers"
  shows "(ord = Resolved r \<and> \<not> ok r \<and> json_body r = Some j \<and>
            order_call_issued (h e now m body ord pay) \<longrightarrow>
            fst (h e now m body ord pay) = Reply (status r) (Json j) \<and>
            \<not> payment_call_issued (h e now m body ord pay)) \<and>
         (ord = Resolved r \<and> json_body r = None \<longrightarrow>
            \<not> payment_call_issued (h e now m body ord pay) \<and>
            (order_call_issued (h e now m body ord pay) \<longrightarrow>
               reply_status (fst (h e now m body ord pay)) = 500)) \<and>
         (payment_call_issued (h e now m body ord pay) \<longrightarrow>
            (\<exists>r' od. ord = Resolved r' \<and> ok r' \<and> json_body r' = Some od \<and> od \<noteq> JNull \<and>
               (\<forall>c \<in> set (snd (h e now m body ord pay)).
                  endpoint c = payments_url \<longrightarrow>
                  props (Some (sent c)) ''order_id'' = props (Some od) ''id'')))"
proof (intro conjI impI)
  assume a: "ord = Resolved r \<and> \<not> ok r \<and> json_body r = Some j \<and>
            order_call_issued (h e now m body ord pay)"
  then have "await_order ord = Inr (Inl (Reply (status r) (Json j)))"
    by (simp add: await_order_failed)
  from order_failed_reply[OF assms this] a
  show "fst (h e now m body ord pay) = Reply (status r) (Json j)"
    and "\<not> payment_call_issued (h e now m body ord pay)" by auto
next
  assume a: "ord = Resolved r \<and> json_body r = None"
  then have t: "await_order ord = Inl SyntaxError" by (simp add: await_order_unparsed)
  from order_thrown_reply[OF assms t]
  show "\<not> payment_call_issued (h e now m body ord pay)" by blast
  assume "order_call_issued (h e now m body ord pay)"
  with order_thrown_reply[OF assms t]
  show "reply_status (fst (h e now m body ord pay)) = 500" by blast
next
  assume "payment_call_issued (h e now m body ord pay)"
  from payment_needs_order[OF assms this]
  show "\<exists>r' od. ord = Resolved r' \<and> ok r' \<and> json_body r' = Some od \<and> od \<noteq> JNull \<and>
               (\<forall>c \<in> set (snd (h e now m body ord pay)).
                  endpoint c = payments_url \<longrightarrow>
                  props (Some (sent c)) ''order_id'' = props (Some od) ''id'')"
    unfolding await_order_created by blast
qed

text \<open>
  The claim as stated fails: a 502 response whose body is an HTML page is answered with
  500, not with 502 and the page; and a 200 response with the body \<^verbatim>\<open>{}\<close> is followed by
  a payment-creation call without \<^verbatim>\<open>order_id\<close>.
\<close>

theorem order_failure_propagates_counterexample:
  "fst (server_create_payment demo_env 0 (demo_request ''IN'' demo_card)
          (Resolved (html_response 502 ''<html>Bad Gateway</html>'')) (Rejected [])) =
     Reply 500 (Thrown (Some ''PAYMENT_FAILED'') SyntaxError) \<and>
   payment_call_issued
     (server_create_payment demo_env 0 (demo_request ''IN'' demo_card)
        (Resolved (json_response 200 (JObj []))) (Rejected [])) \<and>
   props (Some (sent (snd (server_create_payment demo_env 0 (demo_request ''IN'' demo_card)
        (Resolved (json_response 200 (JObj []))) (Rejected [])) ! 1))) ''order_id'' = None"
  by (simp add: run_defs payload_defs)

theorem order_failure_propagates_witness:
  "fst (server_create_payment demo_env 0 (demo_request ''IN'' demo_card)
          (Resolved (json_response 400 (JObj [(''error'', JStr ''bad amount'')]))) (Rejected [])) =
     Reply 400 (Json (JObj [(''error'', JStr ''bad amount'')])) \<and>
   \<not> payment_call_issued
     (server_create_payment demo_env 0 (demo_request ''IN'' demo_card)
          (Resolved (json_response 400 (JObj [(''error'', JStr ''bad amount'')]))) (Rejected []))"
proof -
  have h: "(\<lambda>e now m. server_create_payment e now) \<in> set handlers"
    by (simp add: handlers_def)
  have o: "order_call_issued
     (server_create_payment demo_env 0 (demo_request ''IN'' demo_card)
          (Resolved (json_response 400 (JObj [(''error'', JStr ''bad amount'')]))) (Rejected []))"
    by (simp add: run_defs)
  have n: "\<not> ok (json_response 400 (JObj [(''error'', JStr ''bad amount'')]))"
    by (simp add: ok_def json_response_def)
  have j: "json_body (json_response 400 (JObj [(''error'', JStr ''bad amount'')])) =
             Some (JObj [(''error'', JStr ''bad amount'')])"
    by (simp add: json_response_def)
  have s: "status (json_response 400 (JObj [(''error'', JStr ''bad amount'')])) = 400"
    by (simp add: json_response_def)
  show ?thesis
    using order_failure_propagates[OF h,
        where ord = "Resolved (json_response 400 (JObj [(''error'', JStr ''bad amount'')]))"
        and r = "json_response 400 (JObj [(''error'', JStr ''bad amount'')])"
        and j = "JObj [(''error'', JStr ''bad amount'')]" and e = demo_env and now = 0
        and body = "demo_request ''IN'' demo_card" and pay = "Rejected []"] o n j s
    by simp
qed

section \<open>C3: credential resolution\<close>

lemma present_or_empty: "present (or_empty v) = present v"
  by (simp add: or_empty_def present_def split: option.splits)

lemma server_table_lookup:
  "\<exists>cur. config_at (RAZORPAY_CONFIGS_server e) region =
     (if region \<in> set regions
      then Some (Config (or_empty (e (id_var region))) (or_empty (e (secret_var region))) cur)
      else None)"
  by (auto simp: config_at_def RAZORPAY_CONFIGS_server_def regions_def id_var_def secret_var_def)

lemma api_table_lookup:
  "\<exists>cur. config_at (RAZORPAY_CONFIGS_api e) region =
     (if region \<in> set regions
      then Some (Config (e (id_var region)) (e (secret_var region)) cur)
      else None)"
  by (auto simp: config_at_def RAZORPAY_CONFIGS_api_def regions_def id_var_def secret_var_def)

lemma getAuthHeader_region:
  "\<exists>a. getAuthHeader e (Some (JStr region)) =
     (if region \<in> set regions \<and> present (e (secret_var region))
      then Inr a
      else Inl (Error (''Invalid or unconfigured country: '' @ region)))"
proof -
  obtain cur where "config_at (RAZORPAY_CONFIGS_server e) region =
     (if region \<in> set regions
      then Some (Config (or_empty (e (id_var region))) (or_empty (e (secret_var region))) cur)
      else None)"
    using server_table_lookup by blast
  then show ?thesis
    by (auto simp: getAuthHeader_def to_str_opt_def present_or_empty)
qed

lemma getConfig_region:
  "\<exists>c. getConfig e (Some (JStr region)) =
     (if region \<in> set regions \<and> present (e (secret_var region))
      then Inr c
      else Inl (Error (''Invalid or unconfigured country: '' @ region)))"
proof -
  obtain cur where "config_at (RAZORPAY_CONFIGS_server e) region =
     (if region \<in> set regions
      then Some (Config (or_empty (e (id_var region))) (or_empty (e (secret_var region))) cur)
      else None)"
    using server_table_lookup by blast
  then show ?thesis
    by (auto simp: getConfig_def to_str_opt_def present_or_empty)
qed

lemma api_config_region:
  "\<exists>c. api_config e (Some (JStr region)) =
     (if region \<in> set regions \<and> present (e (id_var region)) \<and> present (e (secret_var region))
      then Inr (Inr c)
      else Inr (Inl (Reply 400 (error_json None ''Invalid country or missing credentials'' None))))"
proof -
  obtain cur where "config_at (RAZORPAY_CONFIGS_api e) region =
     (if region \<in> set regions
      then Some (Config (e (id_var region)) (e (secret_var region)) cur)
      else None)"
    using api_table_lookup by blast
  then show ?thesis
    by (auto simp: api_config_def to_str_opt_def)
qed

lemma server_card_unresolved:
  assumes "props body ''country'' = Some (JStr region)"
    and "\<not> (region \<in> set regions \<and> present (e (secret_var region)))"
  shows "server_create_payment e now body ord pay =
           (if card_fields_missing (props body)
            then Reply 400 (error_json (Some ''BAD_REQUEST'')
                   ''Missing required fields: amount, currency, country, method, card'' None)
            else Reply 500 (Thrown (Some ''PAYMENT_FAILED'')
                   (Error (''Invalid or unconfigured country: '' @ region))), [])"
proof -
  have d: "destructure body = Inr (props body)"
    using props_Some_not_null[OF assms(1)] by (simp add: destructure_ok)
  have "getAuthHeader e (props body ''country'') =
          Inl (Error (''Invalid or unconfigured country: '' @ region))"
    using getAuthHeader_region[of e region] assms by auto
  then show ?thesis
    by (simp add: server_create_payment_def d payment_failed_def)
qed

lemma server_applepay_unresolved:
  assumes "props body ''country'' = Some (JStr region)"
    and "\<not> (region \<in> set regions \<and> present (e (secret_var region)))"
  shows "server_create_applepay_payment e now body ord pay =
           (if applepay_fields_missing (props body)
            then Reply 400 (error_json (Some ''BAD_REQUEST'')
                   ''Missing required fields: amount, currency, country'' None)
            else Reply 500 (Thrown (Some ''PAYMENT_FAILED'')
                   (Error (''Invalid or unconfigured country: '' @ region))), [])"
proof -
  have d: "destructure body = Inr (props body)"
    using props_Some_not_null[OF assms(1)] by (simp add: destructure_ok)
  have "getAuthHeader e (props body ''country'') =
          Inl (Error (''Invalid or unconfigured country: '' @ region))"
    using getAuthHeader_region[of e region] assms by auto
  then show ?thesis
    by (simp add: server_create_applepay_payment_def d payment_failed_def)
qed

lemma api_unresolved:
  assumes "props body ''country'' = Some (JStr region)"
    and "\<not> (region \<in> set regions \<and> present (e (id_var region)) \<and> present (e (secret_var region)))"
  shows "api_handler payload redirect description e ''POST'' body ord pay =
           (Reply 400 (error_json None ''Invalid country or missing credentials'' None), [])"
proof -
  have d: "destructure body = Inr (props body)"
    using props_Some_not_null[OF assms(1)] by (simp add: destructure_ok)
  have "api_config e (props body ''country'') =
          Inr (Inl (Reply 400 (error_json None ''Invalid country or missing credentials'' None)))"
    using api_config_region[of e region] assms by auto
  then show ?thesis
    by (simp add: api_handler_def api_try_def d)
qed

text \<open>
  Claim C3, as amended. For every region string: \<^verbatim>\<open>getAuthHeader\<close> and \<^verbatim>\<open>getConfig\<close> of
  \<^verbatim>\<open>server.js\<close> succeed if and only if the region is one of MY, SG, US, IN and its secret
  is non-empty (the identifier is not tested); the serverless handlers resolve the
  configuration if and only if the region is one of the four and both the identifier
  and the secret are non-empty. For any other region string no gateway call is made:
  the handlers of \<^verbatim>\<open>server.js\<close> reply 500 with code \<^verbatim>\<open>PAYMENT_FAILED\<close> from their \<^verbatim>\<open>catch\<close>
  block (400 only when a required field is missing as well), the serverless handlers
  reply 400.
\<close>

theorem credential_resolution:
  "((\<exists>a. getAuthHeader e (Some (JStr region)) = Inr a) \<longleftrightarrow>
      region \<in> set regions \<and> present (e (secret_var region))) \<and>
   ((\<exists>c. getConfig e (Some (JStr region)) = Inr c) \<longleftrightarrow>
      region \<in> set regions \<and> present (e (secret_var region))) \<and>
   ((\<exists>c. api_config e (Some (JStr region)) = Inr (Inr c)) \<longleftrightarrow>
      region \<in> set regions \<and> present (e (id_var region)) \<and> present (e (secret_var region))) \<and>
   (props body ''country'' = Some (JStr region) \<and>
    \<not> (region \<in> set regions \<and> present (e (secret_var region))) \<longrightarrow>
      server_create_payment e now body ord pay =
        (if card_fields_missing (props body)
         then Reply 400 (error_json (Some ''BAD_REQUEST'')
                ''Missing required fields: amount, currency, country, method, card'' None)
         else Reply 500 (Thrown (Some ''PAYMENT_FAILED'')
                (Error (''Invalid or unconfigured country: '' @ region))), []) \<and>
      server_create_applepay_payment e now body ord pay =
        (if applepay_fields_missing (props body)
         then Reply 400 (error_json (Some ''BAD_REQUEST'')
                ''Missing required fields: amount, currency, country'' None)
         else Reply 500 (Thrown (Some ''PAYMENT_FAILED'')
                (Error (''Invalid or unconfigured country: '' @ region))), [])) \<and>
   (props body ''country'' = Some (JStr region) \<and>
    \<not> (region \<in> set regions \<and> present (e (id_var region)) \<and> present (e (secret_var region))) \<longrightarrow>
      api_create_payment e ''POST'' body ord pay =
        (Reply 400 (error_json None ''Invalid country or missing credentials'' None), []) \<and>
      api_create_applepay_payment e ''POST'' body ord pay =
        (Reply 400 (error_json None ''Invalid country or missing credentials'' None), []))"
proof (intro conjI)
  show "(\<exists>a. getAuthHeader e (Some (JStr region)) = Inr a) \<longleftrightarrow>
      region \<in> set regions \<and> present (e (secret_var region))"
    using getAuthHeader_region[of e region] by (auto split: if_splits)
  show "(\<exists>c. getConfig e (Some (JStr region)) = Inr c) \<longleftrightarrow>
      region \<in> set regions \<and> present (e (secret_var region))"
    using getConfig_region[of e region] by (auto split: if_splits)
  show "(\<exists>c. api_config e (Some (JStr region)) = Inr (Inr c)) \<longleftrightarrow>
      region \<in> set regions \<and> present (e (id_var region)) \<and> present (e (secret_var region))"
    using api_config_region[of e region] by (auto split: if_splits)
  show "props body ''country'' = Some (JStr region) \<and>
    \<not> (region \<in> set regions \<and> present (e (secret_var region))) \<longrightarrow>
      server_create_payment e now body ord pay =
        (if card_fields_missing (props body)
         then Reply 400 (error_json (Some ''BAD_REQUEST'')
                ''Missing required fields: amount, currency, country, method, card'' None)
         else Reply 500 (Thrown (Some ''PAYMENT_FAILED'')
                (Error (''Invalid or unconfigured country: '' @ region))), []) \<and>
      server_create_applepay_payment e now body ord pay =
        (if applepay_fields_missing (props body)
         then Reply 400 (error_json (Some ''BAD_REQUEST'')
                ''Missing required fields: amount, currency, country'' None)
         else Reply 500 (Thrown (Some ''PAYMENT_FAILED'')
                (Error (''Invalid or unconfigured country: '' @ region))), [])"
    using server_card_unresolved[of body region e now ord pay]
      server_applepay_unresolved[of body region e now ord pay] by blast
  show "props body ''country'' = Some (JStr region) \<and>
    \<not> (region \<in> set regions \<and> present (e (id_var region)) \<and> present (e (secret_var region))) \<longrightarrow>
      api_create_payment e ''POST'' body ord pay =
        (Reply 400 (error_json None ''Invalid country or missing credentials'' None), []) \<and>
      api_create_applepay_payment e ''POST'' body ord pay =
        (Reply 400 (error_json None ''Invalid country or missing credentials'' None), [])"
    unfolding api_create_payment_def api_create_applepay_payment_def
    using api_unresolved[of body region e] by blast
qed

text \<open>
  The claim as stated fails on \<^verbatim>\<open>server.js\<close>: a region with a secret and no identifier
  resolves, and an unknown region is answered with 500, not 400.
\<close>

theorem credential_resolution_counterexample:
  "getAuthHeader secret_only_env (Some (JStr ''IN'')) = Inr (Basic '':s3cret'') \<and>
   secret_only_env (id_var ''IN'') = None \<and>
   server_create_payment demo_env 0 (demo_request ''FR'' demo_card) demo_order (Rejected []) =
     (Reply 500 (Thrown (Some ''PAYMENT_FAILED'') (Error ''Invalid or unconfigured country: FR'')),
      [])"
  by (simp add: run_defs id_var_def)

theorem credential_resolution_witness:
  "(\<exists>a. getAuthHeader demo_env (Some (JStr ''IN'')) = Inr a) \<and>
   (\<exists>c. api_config demo_env (Some (JStr ''IN'')) = Inr (Inr c)) \<and>
   \<not> (\<exists>c. api_config secret_only_env (Some (JStr ''IN'')) = Inr (Inr c)) \<and>
   api_create_payment demo_env ''POST'' (demo_request ''FR'' demo_card) demo_order (Rejected []) =
     (Reply 400 (error_json None ''Invalid country or missing credentials'' None), []) \<and>
   server_create_payment demo_env 0 (demo_request ''FR'' demo_card) demo_order (Rejected []) =
     (Reply 500 (Thrown (Some ''PAYMENT_FAILED'') (Error ''Invalid or unconfigured country: FR'')),
      [])"
proof -
  have c: "props (demo_request ''FR'' demo_card) ''country'' = Some (JStr ''FR'')"
    by (simp add: demo_request_def props_def)
  have v: "\<not> card_fields_missing (props (demo_request ''FR'' demo_card))"
    by (simp add: card_fields_missing_def demo_request_def demo_card_def props_def truthy_opt_def)
  have fr: "''FR'' \<notin> set regions" by (simp add: regions_def)
  have inr: "''IN'' \<in> set regions" by (simp add: regions_def)
  have p: "present (demo_env (secret_var ''IN''))" "present (demo_env (id_var ''IN''))"
    "present (secret_only_env (secret_var ''IN''))" "\<not> present (secret_only_env (id_var ''IN''))"
    by (simp_all add: present_def demo_env_def secret_only_env_def secret_var_def id_var_def)
  show ?thesis
    using credential_resolution[of demo_env "''IN''"]
      credential_resolution[of secret_only_env "''IN''"]
      credential_resolution[of demo_env "''FR''" "demo_request ''FR'' demo_card" 0 demo_order
        "Rejected []"]
      c v fr inr p
    by simp
qed

section \<open>C8: the contact and email placeholders of the Apple Pay flow\<close>

lemma applepay_request_contact:
  "props (Some (applepay_payment_request f oid)) ''contact'' =
     (if truthy_opt (f ''contact'') then f ''contact'' else Some (JStr ''+60123456789''))"
  by (simp add: applepay_payment_request_def props_def map_of_obj or_default_def)

lemma applepay_request_email:
  "props (Some (applepay_payment_request f oid)) ''email'' =
     (if truthy_opt (f ''email'') then f ''email'' else Some (JStr ''applepay@example.com''))"
  by (simp add: applepay_payment_request_def props_def map_of_obj or_default_def)

lemma api_applepay_payload_contact:
  "props (Some (api_applepay_payload f oid)) ''contact'' = f ''contact''"
  by (simp add: api_applepay_payload_def props_def map_of_obj)

lemma api_applepay_payload_email:
  "props (Some (api_applepay_payload f oid)) ''email'' = f ''email''"
  by (simp add: api_applepay_payload_def props_def map_of_obj)

text \<open>
  Claim C8, as amended. In the Apple Pay handler of \<^verbatim>\<open>server.js\<close>, the payment request
  carries the caller's \<^verbatim>\<open>contact\<close> and \<^verbatim>\<open>email\<close> when they are truthy and the placeholder
  otherwise: the placeholder replaces a field that is absent, but also one that is
  \<^verbatim>\<open>null\<close>, \<^verbatim>\<open>false\<close>, \<^verbatim>\<open>0\<close> or the empty string. The serverless Apple Pay handler
  sends both fields as the caller gave them and has no placeholder.
\<close>

theorem applepay_placeholders:
  "(\<forall>c \<in> set (snd (server_create_applepay_payment e now body ord pay)).
      endpoint c = payments_url \<longrightarrow>
      props (Some (sent c)) ''contact'' =
        (if truthy_opt (props body ''contact'') then props body ''contact''
         else Some (JStr ''+60123456789'')) \<and>
      props (Some (sent c)) ''email'' =
        (if truthy_opt (props body ''email'') then props body ''email''
         else Some (JStr ''applepay@example.com''))) \<and>
   (\<forall>c \<in> set (snd (api_create_applepay_payment e m body ord pay)).
      endpoint c = payments_url \<longrightarrow>
      props (Some (sent c)) ''contact'' = props body ''contact'' \<and>
      props (Some (sent c)) ''email'' = props body ''email'')"
proof (intro conjI ballI impI)
  fix c
  assume c: "c \<in> set (snd (server_create_applepay_payment e now body ord pay))"
    and p: "endpoint c = payments_url"
  then have "payment_call_issued (server_create_applepay_payment e now body ord pay)"
    by (auto simp: payment_call_issued_def list_ex_iff)
  from server_applepay_issued[OF this]
  obtain a oid where s: "snd (server_create_applepay_payment e now body ord pay) =
             [Call orders_url a (applepay_order_payload (props body) now),
              Call payments_url a (applepay_payment_request (props body) oid)]"
    by blast
  have "c = Call payments_url a (applepay_payment_request (props body) oid)"
    using c p urls_differ unfolding s by auto
  then show "props (Some (sent c)) ''contact'' =
        (if truthy_opt (props body ''contact'') then props body ''contact''
         else Some (JStr ''+60123456789''))"
    and "props (Some (sent c)) ''email'' =
        (if truthy_opt (props body ''email'') then props body ''email''
         else Some (JStr ''applepay@example.com''))"
    by (simp_all add: applepay_request_contact applepay_request_email)
next
  fix c
  assume c: "c \<in> set (snd (api_create_applepay_payment e m body ord pay))"
    and p: "endpoint c = payments_url"
  then have "payment_call_issued (api_handler api_applepay_payload api_applepay_redirect
      ''Failed to parse Apple Pay response'' e m body ord pay)"
    by (auto simp: payment_call_issued_def list_ex_iff api_create_applepay_payment_def)
  from api_issued[OF this]
  obtain cf oid where s: "snd (api_create_applepay_payment e m body ord pay) =
             [Call orders_url (Basic (credentials cf)) (api_order_payload (props body)),
              Call payments_url (Basic (credentials cf)) (api_applepay_payload (props body) oid)]"
    unfolding api_create_applepay_payment_def by blast
  have "c = Call payments_url (Basic (credentials cf)) (api_applepay_payload (props body) oid)"
    using c p urls_differ unfolding s by auto
  then show "props (Some (sent c)) ''contact'' = props body ''contact''"
    and "props (Some (sent c)) ''email'' = props body ''email''"
    by (simp_all add: api_applepay_payload_contact api_applepay_payload_email)
qed

text \<open>
  The claim as stated fails: a caller-supplied empty \<^verbatim>\<open>contact\<close> is replaced by the
  placeholder.
\<close>

theorem applepay_placeholders_counterexample:
  "props (demo_wallet_request [(''contact'', JStr [])]) ''contact'' = Some (JStr []) \<and>
   props (Some (sent (snd (server_create_applepay_payment demo_env 0
            (demo_wallet_request [(''contact'', JStr [])]) demo_order (Rejected [])) ! 1)))
     ''contact'' = Some (JStr ''+60123456789'')"
  by (simp add: run_defs payload_defs)

theorem applepay_placeholders_witness:
  "props (Some (sent (snd (server_create_applepay_payment demo_env 0
            (demo_wallet_request [(''contact'', JStr ''+919999999999'')]) demo_order
            (Rejected [])) ! 1))) ''contact'' = Some (JStr ''+919999999999'') \<and>
   props (Some (sent (snd (server_create_applepay_payment demo_env 0
            (demo_wallet_request [(''contact'', JStr ''+919999999999'')]) demo_order
            (Rejected [])) ! 1))) ''email'' = Some (JStr ''applepay@example.com'')"
proof -
  let ?run = "server_create_applepay_payment demo_env 0
            (demo_wallet_request [(''contact'', JStr ''+919999999999'')]) demo_order
            (Rejected [])"
  have l: "length (snd ?run) = 2" and ep: "endpoint (snd ?run ! 1) = payments_url"
    by (simp_all add: run_defs)
  then have m: "snd ?run ! 1 \<in> set (snd ?run)" by simp
  have b: "props (demo_wallet_request [(''contact'', JStr ''+919999999999'')]) ''contact'' =
             Some (JStr ''+919999999999'')"
    "props (demo_wallet_request [(''contact'', JStr ''+919999999999'')]) ''email'' = None"
    by (simp_all add: demo_wallet_request_def props_def)
  show ?thesis
    using applepay_placeholders[of demo_env 0
        "demo_wallet_request [(''contact'', JStr ''+919999999999'')]" demo_order "Rejected []"]
      m ep b
    by (simp add: truthy_opt_def)
qed

section \<open>C5: the expiry year sent to the gateway\<close>

text \<open>
  In the card handler of \<^verbatim>\<open>server.js\<close>, an \<^verbatim>\<open>expiry_year\<close> string of two characters is
  sent with the prefix \<^verbatim>\<open>20\<close> and every other string is sent unchanged.
\<close>

lemma expiry_shim_string:
  "expiry_shim (Some (JStr y)) = Inr (Some (JStr (if length y = 2 then ''20'' @ y else y)))"
  by (simp add: expiry_shim_def to_str_opt_def)

lemma card_request_expiry_year:
  "props (props (Some (card_payment_request f oid ey)) ''card'') ''expiry_year'' = ey"
  by (simp add: card_payment_request_def props_def map_of_obj)

lemma server_card_expiry_year:
  assumes "c \<in> set (snd (server_create_payment e now body ord pay))"
    and "endpoint c = payments_url"
    and "props (props body ''card'') ''expiry_year'' = Some (JStr y)"
  shows "props (props (Some (sent c)) ''card'') ''expiry_year'' =
           Some (JStr (if length y = 2 then ''20'' @ y else y))"
proof -
  have "payment_call_issued (server_create_payment e now body ord pay)"
    using assms(1,2) by (auto simp: payment_call_issued_def list_ex_iff)
  from server_card_issued[OF this]
  obtain a oid y' ey where s: "snd (server_create_payment e now body ord pay) =
             [Call orders_url a (card_order_payload (props body) now),
              Call payments_url a (card_payment_request (props body) oid ey)]"
    and y': "get_prop (props body ''card'') ''expiry_year'' = Inr y'"
    and ey: "expiry_shim y' = Inr ey"
    by blast
  have "y' = Some (JStr y)" using y' assms(3) by (simp add: props_def)
  with ey have "ey = Some (JStr (if length y = 2 then ''20'' @ y else y))"
    by (simp add: expiry_shim_string)
  moreover have "c = Call payments_url a (card_payment_request (props body) oid ey)"
    using assms(1,2) urls_differ unfolding s by auto
  ultimately show ?thesis by (simp add: card_request_expiry_year)
qed

text \<open>
  Claim C5 says that every card payment request with a two-character \<^verbatim>\<open>expiry_year\<close>
  reaches the gateway with the four-digit year. The serverless card handler forwards
  the card object as it came: on the request with \<^verbatim>\<open>expiry_year: "27"\<close> it sends
  \<^verbatim>\<open>"27"\<close>, where the handler of \<^verbatim>\<open>server.js\<close> sends \<^verbatim>\<open>"2027"\<close>.
\<close>

theorem serverless_card_keeps_two_digit_year:
  "props (props (Some (sent (snd (api_create_payment demo_env ''POST''
       (demo_request ''IN'' demo_card) demo_order (Rejected [])) ! 1))) ''card'') ''expiry_year'' =
     Some (JStr ''27'') \<and>
   props (props (Some (sent (snd (server_create_payment demo_env 0
       (demo_request ''IN'' demo_card) demo_order (Rejected [])) ! 1))) ''card'') ''expiry_year'' =
     Some (JStr ''2027'')"
  by (simp add: run_defs payload_defs)

section \<open>C9: the reply to a completed card payment\<close>

text \<open>
  In the card handler of \<^verbatim>\<open>server.js\<close>, a payment response with JSON content type, a
  success status and a body other than \<^verbatim>\<open>null\<close> is answered with 200 and that body
  extended by \<^verbatim>\<open>order\<close>, the order payload; the other fields of an object body are kept.
\<close>

lemma with_order_has_order:
  "props (Some (with_order paymentData orderData)) ''order'' = Some orderData"
proof -
  have "map_of (set_prop k v kvs) k = Some v" for k v and kvs :: "(string \<times> json) list"
    by (induction kvs) auto
  then show ?thesis by (simp add: with_order_def props_def)
qed

lemma with_order_keeps_fields:
  "k \<noteq> ''order'' \<Longrightarrow>
   props (Some (with_order (JObj kvs) orderData)) k = props (Some (JObj kvs)) k"
proof -
  have "k \<noteq> k' \<Longrightarrow> map_of (set_prop k' v kvs) k = map_of kvs k"
    for k k' v and kvs :: "(string \<times> json) list"
    by (induction kvs) auto
  then show "k \<noteq> ''order'' \<Longrightarrow> ?thesis" by (simp add: with_order_def props_def)
qed

lemma server_card_completed:
  assumes "payment_call_issued (server_create_payment e now body ord (Resolved r))"
    and "ord = Resolved ro" and "json_body ro = Some orderData"
    and "is_json_type (content_type r)" and "ok r"
    and "json_body r = Some paymentData" and "paymentData \<noteq> JNull"
  shows "fst (server_create_payment e now body ord (Resolved r)) =
           Reply 200 (Json (with_order paymentData orderData))"
proof -
  from server_card_issued[OF assms(1)]
  obtain od oid where od: "await_order ord = Inr (Inr od)"
    and f: "fst (server_create_payment e now body ord (Resolved r)) =
              (case card_payment_reply oid od r of
                 Inl err \<Rightarrow> payment_failed err
               | Inr rep \<Rightarrow> rep)"
    by auto
  have "od = orderData"
    using od assms(2,3) by (auto simp: await_order_created)
  moreover obtain i where "get_prop (Some paymentData) ''id'' = Inr i"
    using assms(7) by (cases paymentData) auto
  ultimately show ?thesis
    using f assms(4,5,6) by (simp add: card_payment_reply_def)
qed

text \<open>
  Claim C9 says that the reply to a completed card payment is the payment result merged
  with the order result. The serverless card handler replies with the payment result
  alone: in the scenario of an order \<^verbatim>\<open>order_abc\<close> and a payment result
  \<^verbatim>\<open>{razorpay_payment_id: "pay_1", status: "captured"}\<close> its reply has no \<^verbatim>\<open>order\<close>, where
  the reply of the handler of \<^verbatim>\<open>server.js\<close> has it.
\<close>

theorem serverless_card_reply_lacks_order:
  "fst (api_create_payment demo_env ''POST'' (demo_request ''IN'' demo_card) demo_order
        (Resolved (json_response 200
           (JObj [(''razorpay_payment_id'', JStr ''pay_1''), (''status'', JStr ''captured'')])))) =
     Reply 200 (Json
       (JObj [(''razorpay_payment_id'', JStr ''pay_1''), (''status'', JStr ''captured'')])) \<and>
   fst (server_create_payment demo_env 0 (demo_request ''IN'' demo_card) demo_order
        (Resolved (json_response 200
           (JObj [(''razorpay_payment_id'', JStr ''pay_1''), (''status'', JStr ''captured'')])))) =
     Reply 200 (Json
       (JObj [(''razorpay_payment_id'', JStr ''pay_1''), (''status'', JStr ''captured''),
              (''order'', JObj [(''id'', JStr ''order_abc'')])]))"
  by (simp add: run_defs payload_defs)

section \<open>C1: a redirect entry in a JSON payment response\<close>

lemma props_Some_get: "props v k = Some x \<Longrightarrow> get_prop v k = Inr (Some x)"
  by (cases "get_prop v k") (auto simp: props_def)

lemma next_redirect_first:
  assumes "props (Some data) ''next'' = Some (JArr (pre @ a # post))"
    and "\<forall>p \<in> set pre. p \<noteq> JNull \<and> props (Some p) ''action'' \<noteq> Some (JStr ''redirect'')"
    and "props (Some a) ''action'' = Some (JStr ''redirect'')"
    and "props (Some a) ''url'' = Some u" and "truthy u"
  shows "next_redirect data = Inr (Some u)"
  using props_Some_get[OF assms(1)] find_redirect_first[OF assms(2,3)]
    props_Some_get[OF assms(4)] assms(5)
  by (simp add: next_redirect_def truthy_opt_def)

lemma server_applepay_reply:
  assumes "payment_call_issued (server_create_applepay_payment e now body ord (Resolved r))"
    and "ord = Resolved ro" and "json_body ro = Some od"
  shows "fst (server_create_applepay_payment e now body ord (Resolved r)) =
           (case applepay_payment_reply (props (Some od) ''id'') od r of
              Inl err \<Rightarrow> payment_failed err
            | Inr rep \<Rightarrow> rep)"
proof -
  from server_applepay_issued[OF assms(1)]
  obtain od' oid where od: "await_order ord = Inr (Inr od')"
    and oid: "get_prop (Some od') ''id'' = Inr oid"
    and f: "fst (server_create_applepay_payment e now body ord (Resolved r)) =
              (case applepay_payment_reply oid od' r of
                 Inl err \<Rightarrow> payment_failed err
               | Inr rep \<Rightarrow> rep)"
    by auto
  have "od' = od" using od assms(2,3) by (auto simp: await_order_created)
  with oid f show ?thesis by (simp add: props_def)
qed

lemma server_card_reply:
  assumes "payment_call_issued (server_create_payment e now body ord (Resolved r))"
    and "ord = Resolved ro" and "json_body ro = Some od"
  shows "fst (server_create_payment e now body ord (Resolved r)) =
           (case card_payment_reply (props (Some od) ''id'') od r of
              Inl err \<Rightarrow> payment_failed err
            | Inr rep \<Rightarrow> rep)"
proof -
  from server_card_issued[OF assms(1)]
  obtain od' oid where od: "await_order ord = Inr (Inr od')"
    and oid: "get_prop (Some od') ''id'' = Inr oid"
    and f: "fst (server_create_payment e now body ord (Resolved r)) =
              (case card_payment_reply oid od' r of
                 Inl err \<Rightarrow> payment_failed err
               | Inr rep \<Rightarrow> rep)"
    by auto
  have "od' = od" using od assms(2,3) by (auto simp: await_order_created)
  with oid f show ?thesis by (simp add: props_def)
qed

lemma api_reply:
  assumes "payment_call_issued (api_handler payload redirect description e m body ord (Resolved r))"
  shows "fst (api_handler payload redirect description e m body ord (Resolved r)) =
           (case api_payment_reply redirect description r of
              Inl err \<Rightarrow> api_failed err
            | Inr rep \<Rightarrow> rep)"
  using api_issued[OF assms] by auto

text \<open>
  Claim C1, as amended. In the two serverless handlers and in the Apple Pay handler of
  \<^verbatim>\<open>server.js\<close>: for every payment-creation response whose content type indicates JSON
  and whose parsed body has a \<^verbatim>\<open>next\<close> array in which the first entry with the action
  \<^verbatim>\<open>redirect\<close> has a truthy \<^verbatim>\<open>url\<close>, no earlier entry being \<^verbatim>\<open>null\<close>, the reply is the
  redirect reply with that url and the body's \<^verbatim>\<open>razorpay_payment_id\<close>, whatever the HTTP
  status of the response.
\<close>

theorem json_redirect_first_entry:
  assumes "is_json_type (content_type r)" and "json_body r = Some data"
    and "props (Some data) ''next'' = Some (JArr (pre @ a # post))"
    and "\<forall>p \<in> set pre. p \<noteq> JNull \<and> props (Some p) ''action'' \<noteq> Some (JStr ''redirect'')"
    and "props (Some a) ''action'' = Some (JStr ''redirect'')"
    and "props (Some a) ''url'' = Some u" and "truthy u"
  shows "(payment_call_issued (api_create_payment e m body ord (Resolved r)) \<longrightarrow>
            fst (api_create_payment e m body ord (Resolved r)) =
              api_card_redirect (props (Some data) ''razorpay_payment_id'') u) \<and>
         (payment_call_issued (api_create_applepay_payment e m body ord (Resolved r)) \<longrightarrow>
            fst (api_create_applepay_payment e m body ord (Resolved r)) =
              api_applepay_redirect (props (Some data) ''razorpay_payment_id'') u) \<and>
         (payment_call_issued (server_create_applepay_payment e now body ord (Resolved r)) \<and>
          ord = Resolved ro \<and> json_body ro = Some od \<longrightarrow>
            fst (server_create_applepay_payment e now body ord (Resolved r)) =
              applepay_redirect (props (Some data) ''razorpay_payment_id'')
                (props (Some od) ''id'') u)"
proof -
  have n: "next_redirect data = Inr (Some u)"
    using assms(3-7) by (rule next_redirect_first)
  have api: "api_payment_reply redirect description r =
               Inr (redirect (props (Some data) ''razorpay_payment_id'') u)"
    for redirect description
    using assms(1,2) n by (simp add: api_payment_reply_def)
  have srv: "applepay_payment_reply oid od r =
               Inr (applepay_redirect (props (Some data) ''razorpay_payment_id'') oid u)"
    for oid od
    using assms(1,2) n by (simp add: applepay_payment_reply_def)
  show ?thesis
  proof (intro conjI impI)
    assume "payment_call_issued (api_create_payment e m body ord (Resolved r))"
    then show "fst (api_create_payment e m body ord (Resolved r)) =
              api_card_redirect (props (Some data) ''razorpay_payment_id'') u"
      unfolding api_create_payment_def by (simp add: api_reply api)
  next
    assume "payment_call_issued (api_create_applepay_payment e m body ord (Resolved r))"
    then show "fst (api_create_applepay_payment e m body ord (Resolved r)) =
              api_applepay_redirect (props (Some data) ''razorpay_payment_id'') u"
      unfolding api_create_applepay_payment_def by (simp add: api_reply api)
  next
    assume "payment_call_issued (server_create_applepay_payment e now body ord (Resolved r)) \<and>
          ord = Resolved ro \<and> json_body ro = Some od"
    then have i: "payment_call_issued (server_create_applepay_payment e now body ord (Resolved r))"
      and o: "ord = Resolved ro" and j: "json_body ro = Some od" by auto
    show "fst (server_create_applepay_payment e now body ord (Resolved r)) =
              applepay_redirect (props (Some data) ''razorpay_payment_id'')
                (props (Some od) ''id'') u"
      using server_applepay_reply[OF i o j] by (simp add: srv)
  qed
qed

text \<open>
  The claim as stated fails: \<^verbatim>\<open>find\<close> returns the first \<^verbatim>\<open>redirect\<close> entry only, so a body
  whose first such entry has no url and whose second has one is passed through as a
  completed payment.
\<close>

theorem json_redirect_first_entry_counterexample:
  "fst (api_create_payment demo_env ''POST'' (demo_request ''IN'' demo_card) demo_order
          (Resolved (json_response 200
             (JObj [(''razorpay_payment_id'', JStr ''pay_1''),
                    (''next'', JArr [JObj [(''action'', JStr ''redirect'')],
                                     JObj [(''action'', JStr ''redirect''),
                                           (''url'', JStr ''https://x/y'')]])])))) =
     Reply 200 (Json
       (JObj [(''razorpay_payment_id'', JStr ''pay_1''),
              (''next'', JArr [JObj [(''action'', JStr ''redirect'')],
                               JObj [(''action'', JStr ''redirect''),
                                     (''url'', JStr ''https://x/y'')]])]))"
  by (simp add: run_defs payload_defs)

theorem json_redirect_first_entry_witness:
  "fst (api_create_payment demo_env ''POST'' (demo_request ''IN'' demo_card) demo_order
          (Resolved (json_response 400
             (JObj [(''razorpay_payment_id'', JStr ''pay_1''),
                    (''next'', JArr [JObj [(''action'', JStr ''otp'')],
                                     JObj [(''action'', JStr ''redirect''),
                                           (''url'', JStr ''https://x/y'')]])])))) =
     api_card_redirect (Some (JStr ''pay_1'')) (JStr ''https://x/y'')"
proof -
  let ?data = "JObj [(''razorpay_payment_id'', JStr ''pay_1''),
                    (''next'', JArr [JObj [(''action'', JStr ''otp'')],
                                     JObj [(''action'', JStr ''redirect''),
                                           (''url'', JStr ''https://x/y'')]])]"
  let ?a = "JObj [(''action'', JStr ''redirect''), (''url'', JStr ''https://x/y'')]"
  have 1: "is_json_type (content_type (json_response 400 ?data))"
    by (simp add: json_response_def is_json_type_def)
  have 2: "json_body (json_response 400 ?data) = Some ?data"
    by (simp add: json_response_def)
  have 3: "props (Some ?data) ''next'' = Some (JArr ([JObj [(''action'', JStr ''otp'')]] @ ?a # []))"
    by (simp add: props_def)
  have 4: "\<forall>p \<in> set [JObj [(''action'', JStr ''otp'')]].
             p \<noteq> JNull \<and> props (Some p) ''action'' \<noteq> Some (JStr ''redirect'')"
    by (simp add: props_def)
  have 5: "props (Some ?a) ''action'' = Some (JStr ''redirect'')"
    and 6: "props (Some ?a) ''url'' = Some (JStr ''https://x/y'')"
    and 7: "truthy (JStr ''https://x/y'')"
    by (simp_all add: props_def)
  have 8: "payment_call_issued (api_create_payment demo_env ''POST''
             (demo_request ''IN'' demo_card) demo_order (Resolved (json_response 400 ?data)))"
    by (simp add: run_defs)
  have 9: "props (Some ?data) ''razorpay_payment_id'' = Some (JStr ''pay_1'')"
    by (simp add: props_def)
  show ?thesis
    using json_redirect_first_entry[OF 1 2 3 4 5 6 7, of demo_env "''POST''"
        "demo_request ''IN'' demo_card" demo_order] 8 9
    by simp
qed

text \<open>
  The card handler of \<^verbatim>\<open>server.js\<close> does not read \<^verbatim>\<open>next\<close>: a JSON body is answered by
  status alone.
\<close>

lemma server_card_ignores_next:
  "fst (server_create_payment demo_env 0 (demo_request ''IN'' demo_card) demo_order
          (Resolved (json_response 400
             (JObj [(''razorpay_payment_id'', JStr ''pay_1''),
                    (''next'', JArr [JObj [(''action'', JStr ''redirect''),
                                           (''url'', JStr ''https://x/y'')]])])))) =
     Reply 400 (Json
       (JObj [(''razorpay_payment_id'', JStr ''pay_1''),
              (''next'', JArr [JObj [(''action'', JStr ''redirect''),
                                     (''url'', JStr ''https://x/y'')]])]))"
  by (simp add: run_defs payload_defs)

section \<open>C7: a non-JSON payment response without a redirect\<close>

lemma match_url_none: "\<not> str_includes s ''url='' \<Longrightarrow> match_url s = None"
  by (simp add: match_url_def search_none)

lemma search_none_gen:
  "(\<And>t. m t \<noteq> None \<Longrightarrow> prefix lit t) \<Longrightarrow> \<not> str_includes s lit \<Longrightarrow> search m s = None"
proof (induction s)
  case Nil
  have "m [] = None"
  proof (rule ccontr)
    assume "m [] \<noteq> None"
    then have "prefix lit []" by (rule Nil.prems(1))
    with Nil.prems(2) show False by simp
  qed
  then show ?case by simp
next
  case (Cons c cs)
  have "m (c # cs) = None"
  proof (rule ccontr)
    assume "m (c # cs) \<noteq> None"
    then have "prefix lit (c # cs)" by (rule Cons.prems(1))
    with Cons.prems(2) show False by simp
  qed
  moreover have "search m cs = None"
    using Cons.IH[OF Cons.prems(1)] Cons.prems(2) by simp
  ultimately show ?case by simp
qed

lemma match_url_quoted_none: "\<not> str_includes s ''url='' \<Longrightarrow> match_url_quoted s = None"
  unfolding match_url_quoted_def
  by (rule search_none_gen[where lit = "''url=''"])
     (auto simp: lit_run_quoted_def lit_run_def split: option.splits if_splits)

text \<open>
  Claim C7, as amended. For every payment-creation response whose content type does not
  indicate JSON and whose body contains no \<^verbatim>\<open>url=\<close>: the two handlers of \<^verbatim>\<open>server.js\<close>
  reply with the response's own status and an \<^verbatim>\<open>INVALID_RESPONSE\<close> error whose details
  are the first 200 characters of the body; the two serverless handlers reply with
  status 500 and a fixed description, without any part of the body.
\<close>

theorem unparseable_reply:
  assumes "\<not> is_json_type (content_type r)" and "\<not> str_includes (text_body r) ''url=''"
  shows "(payment_call_issued (server_create_payment e now body ord (Resolved r)) \<longrightarrow>
            fst (server_create_payment e now body ord (Resolved r)) =
              Reply (status r) (error_json (Some ''INVALID_RESPONSE'')
                ''Received HTML response but could not extract authentication URL''
                (Some (take 200 (text_body r))))) \<and>
         (payment_call_issued (server_create_applepay_payment e now body ord (Resolved r)) \<longrightarrow>
            fst (server_create_applepay_payment e now body ord (Resolved r)) =
              Reply (status r) (error_json (Some ''INVALID_RESPONSE'')
                ''Received HTML response but could not extract Apple Pay URL''
                (Some (take 200 (text_body r))))) \<and>
         length (take 200 (text_body r)) \<le> 200 \<and>
         (payment_call_issued (api_create_payment e m body ord (Resolved r)) \<longrightarrow>
            fst (api_create_payment e m body ord (Resolved r)) =
              Reply 500 (error_json None ''Failed to parse payment response'' None)) \<and>
         (payment_call_issued (api_create_applepay_payment e m body ord (Resolved r)) \<longrightarrow>
            fst (api_create_applepay_payment e m body ord (Resolved r)) =
              Reply 500 (error_json None ''Failed to parse Apple Pay response'' None))"
proof -
  have c: "card_payment_reply oid od r =
             Inr (Reply (status r) (error_json (Some ''INVALID_RESPONSE'')
                ''Received HTML response but could not extract authentication URL''
                (Some (take 200 (text_body r)))))" for oid od
    using assms by (simp add: card_payment_reply_def match_url_none)
  have a: "applepay_payment_reply oid od r =
             Inr (Reply (status r) (error_json (Some ''INVALID_RESPONSE'')
                ''Received HTML response but could not extract Apple Pay URL''
                (Some (take 200 (text_body r)))))" for oid od
    using assms by (simp add: applepay_payment_reply_def match_url_none)
  have v: "api_payment_reply redirect description r =
             Inr (Reply 500 (error_json None description None))" for redirect description
    using assms by (simp add: api_payment_reply_def match_url_quoted_none)
  show ?thesis
  proof (intro conjI impI)
    assume "payment_call_issued (server_create_payment e now body ord (Resolved r))"
    from server_card_issued[OF this]
    show "fst (server_create_payment e now body ord (Resolved r)) =
              Reply (status r) (error_json (Some ''INVALID_RESPONSE'')
                ''Received HTML response but could not extract authentication URL''
                (Some (take 200 (text_body r))))"
      by (auto simp: c)
  next
    assume "payment_call_issued (server_create_applepay_payment e now body ord (Resolved r))"
    from server_applepay_issued[OF this]
    show "fst (server_create_applepay_payment e now body ord (Resolved r)) =
              Reply (status r) (error_json (Some ''INVALID_RESPONSE'')
                ''Received HTML response but could not extract Apple Pay URL''
                (Some (take 200 (text_body r))))"
      by (auto simp: a)
  next
    show "length (take 200 (text_body r)) \<le> 200" by simp
  next
    assume "payment_call_issued (api_create_payment e m body ord (Resolved r))"
    then show "fst (api_create_payment e m body ord (Resolved r)) =
              Reply 500 (error_json None ''Failed to parse payment response'' None)"
      unfolding api_create_payment_def by (simp add: api_reply v)
  next
    assume "payment_call_issued (api_create_applepay_payment e m body ord (Resolved r))"
    then show "fst (api_create_applepay_payment e m body ord (Resolved r)) =
              Reply 500 (error_json None ''Failed to parse Apple Pay response'' None)"
      unfolding api_create_applepay_payment_def by (simp add: api_reply v)
  qed
qed

text \<open>
  The claim as stated fails on the serverless handlers: a 502 page is answered with 500
  and the fixed description.
\<close>

theorem unparseable_reply_counterexample:
  "fst (api_create_payment demo_env ''POST'' (demo_request ''IN'' demo_card) demo_order
          (Resolved (html_response 502 ''<html>Bad Gateway</html>''))) =
     Reply 500 (Json (JObj [(''error'',
       JObj [(''description'', JStr ''Failed to parse payment response'')])]))"
  by (simp add: run_defs payload_defs match_defs)

theorem unparseable_reply_witness:
  "fst (server_create_payment demo_env 0 (demo_request ''IN'' demo_card) demo_order
          (Resolved (html_response 502 ''<html>Bad Gateway</html>''))) =
     Reply 502 (error_json (Some ''INVALID_RESPONSE'')
       ''Received HTML response but could not extract authentication URL''
       (Some ''<html>Bad Gateway</html>''))"
proof -
  have 1: "\<not> is_json_type (content_type (html_response 502 ''<html>Bad Gateway</html>''))"
    by (simp add: html_response_def is_json_type_def)
  have 2: "\<not> str_includes (text_body (html_response 502 ''<html>Bad Gateway</html>'')) ''url=''"
    by (simp add: html_response_def)
  have 3: "payment_call_issued (server_create_payment demo_env 0 (demo_request ''IN'' demo_card)
             demo_order (Resolved (html_response 502 ''<html>Bad Gateway</html>'')))"
    by (simp add: run_defs match_defs)
  show ?thesis
    using unparseable_reply[OF 1 2, of demo_env 0 "demo_request ''IN'' demo_card" demo_order] 3
    by (simp add: html_response_def)
qed

section \<open>C4: a payment response with a non-success status\<close>

text \<open>
  Claim C4, as amended. In the two handlers of \<^verbatim>\<open>server.js\<close>, for every payment-creation
  response with a non-success status, once the payment-creation call has been issued:
  \<^item> when the content type indicates JSON and the body does not parse, \<^verbatim>\<open>json()\<close> throws and
    the caller receives 500 with code \<^verbatim>\<open>PAYMENT_FAILED\<close>;
  \<^item> when the content type indicates JSON, the body parses and the redirect check on it
    (reading \<^verbatim>\<open>next\<close> and looking at its first \<^verbatim>\<open>redirect\<close> entry) neither throws nor finds
    a truthy url, the caller receives the response's status and the parsed body
    unchanged;
  \<^item> in the Apple Pay handler, when that check throws (a \<^verbatim>\<open>null\<close> body, a \<^verbatim>\<open>null\<close> entry that
    \<^verbatim>\<open>find\<close> reaches), the caller receives 500 with code \<^verbatim>\<open>PAYMENT_FAILED\<close>;
  \<^item> when the content type does not indicate JSON and the pattern \<^verbatim>\<open>/url=([^"]+)/\<close> does not
    match the body, the caller receives the response's status with an
    \<^verbatim>\<open>INVALID_RESPONSE\<close> error whose details are the first 200 characters of the body;
  \<^item> a redirect that is present takes precedence over the status: a match of the pattern
    in a non-JSON body is answered with the redirect reply by both handlers, and a
    redirect entry of \<^verbatim>\<open>next\<close> by the Apple Pay handler.
  What the card handler replies to a JSON body on which that check finds a redirect or
  throws is not part of the statement.
\<close>

theorem payment_failure_reply:
  assumes "\<not> ok r"
  shows "(payment_call_issued (server_create_payment e now body ord (Resolved r)) \<longrightarrow>
            (is_json_type (content_type r) \<and> json_body r = None \<longrightarrow>
               fst (server_create_payment e now body ord (Resolved r)) =
                 Reply 500 (Thrown (Some ''PAYMENT_FAILED'') SyntaxError)) \<and>
            (is_json_type (content_type r) \<and> json_body r = Some data \<and>
             next_redirect data = Inr None \<longrightarrow>
               fst (server_create_payment e now body ord (Resolved r)) =
                 Reply (status r) (Json data)) \<and>
            (\<not> is_json_type (content_type r) \<and> match_url (text_body r) = None \<longrightarrow>
               fst (server_create_payment e now body ord (Resolved r)) =
                 Reply (status r) (error_json (Some ''INVALID_RESPONSE'')
                   ''Received HTML response but could not extract authentication URL''
                   (Some (take 200 (text_body r))))) \<and>
            (\<not> is_json_type (content_type r) \<and> match_url (text_body r) = Some u \<and>
             ord = Resolved ro \<and> json_body ro = Some od \<longrightarrow>
               fst (server_create_payment e now body ord (Resolved r)) =
                 card_redirect (or_null (match_payments u)) (props (Some od) ''id'') u)) \<and>
         (payment_call_issued (server_create_applepay_payment e now body ord (Resolved r)) \<longrightarrow>
            (is_json_type (content_type r) \<and> json_body r = None \<longrightarrow>
               fst (server_create_applepay_payment e now body ord (Resolved r)) =
                 Reply 500 (Thrown (Some ''PAYMENT_FAILED'') SyntaxError)) \<and>
            (is_json_type (content_type r) \<and> json_body r = Some data \<and>
             next_redirect data = Inr None \<longrightarrow>
               fst (server_create_applepay_payment e now body ord (Resolved r)) =
                 Reply (status r) (Json data)) \<and>
            (is_json_type (content_type r) \<and> json_body r = Some data \<and>
             next_redirect data = Inl err \<longrightarrow>
               fst (server_create_applepay_payment e now body ord (Resolved r)) =
                 Reply 500 (Thrown (Some ''PAYMENT_FAILED'') err)) \<and>
            (is_json_type (content_type r) \<and> json_body r = Some data \<and>
             next_redirect data = Inr (Some url) \<and> ord = Resolved ro \<and> json_body ro = Some od \<longrightarrow>
               fst (server_create_applepay_payment e now body ord (Resolved r)) =
                 applepay_redirect (props (Some data) ''razorpay_payment_id'')
                   (props (Some od) ''id'') url) \<and>
            (\<not> is_json_type (content_type r) \<and> match_url (text_body r) = None \<longrightarrow>
               fst (server_create_applepay_payment e now body ord (Resolved r)) =
                 Reply (status r) (error_json (Some ''INVALID_RESPONSE'')
                   ''Received HTML response but could not extract Apple Pay URL''
                   (Some (take 200 (text_body r))))) \<and>
            (\<not> is_json_type (content_type r) \<and> match_url (text_body r) = Some u \<and>
             ord = Resolved ro \<and> json_body ro = Some od \<longrightarrow>
               fst (server_create_applepay_payment e now body ord (Resolved r)) =
                 applepay_redirect (Some (or_null (match_payments u))) (props (Some od) ''id'')
                   (JStr u)))"
proof (intro conjI impI)
  assume i: "payment_call_issued (server_create_payment e now body ord (Resolved r))"
  from server_card_issued[OF i] obtain oid od' where
    f: "fst (server_create_payment e now body ord (Resolved r)) =
          (case card_payment_reply oid od' r of Inl err \<Rightarrow> payment_failed err | Inr rep \<Rightarrow> rep)"
    by auto
  {
    assume "is_json_type (content_type r) \<and> json_body r = None"
    then show "fst (server_create_payment e now body ord (Resolved r)) =
                 Reply 500 (Thrown (Some ''PAYMENT_FAILED'') SyntaxError)"
      using f by (simp add: card_payment_reply_def payment_failed_def)
  next
    assume "is_json_type (content_type r) \<and> json_body r = Some data \<and>
             next_redirect data = Inr None"
    then show "fst (server_create_payment e now body ord (Resolved r)) =
                 Reply (status r) (Json data)"
      using f assms by (simp add: card_payment_reply_def)
  next
    assume "\<not> is_json_type (content_type r) \<and> match_url (text_body r) = None"
    then show "fst (server_create_payment e now body ord (Resolved r)) =
                 Reply (status r) (error_json (Some ''INVALID_RESPONSE'')
                   ''Received HTML response but could not extract authentication URL''
                   (Some (take 200 (text_body r))))"
      using f by (simp add: card_payment_reply_def)
  next
    assume a: "\<not> is_json_type (content_type r) \<and> match_url (text_body r) = Some u \<and>
             ord = Resolved ro \<and> json_body ro = Some od"
    then have o: "ord = Resolved ro" and j: "json_body ro = Some od" by auto
    show "fst (server_create_payment e now body ord (Resolved r)) =
                 card_redirect (or_null (match_payments u)) (props (Some od) ''id'') u"
      using server_card_reply[OF i o j] a by (simp add: card_payment_reply_def)
  }
next
  assume i: "payment_call_issued (server_create_applepay_payment e now body ord (Resolved r))"
  from server_applepay_issued[OF i] obtain oid od' where
    f: "fst (server_create_applepay_payment e now body ord (Resolved r)) =
          (case applepay_payment_reply oid od' r of
             Inl err \<Rightarrow> payment_failed err | Inr rep \<Rightarrow> rep)"
    by auto
  {
    assume "is_json_type (content_type r) \<and> json_body r = None"
    then show "fst (server_create_applepay_payment e now body ord (Resolved r)) =
                 Reply 500 (Thrown (Some ''PAYMENT_FAILED'') SyntaxError)"
      using f by (simp add: applepay_payment_reply_def payment_failed_def)
  next
    assume "is_json_type (content_type r) \<and> json_body r = Some data \<and>
             next_redirect data = Inr None"
    then show "fst (server_create_applepay_payment e now body ord (Resolved r)) =
                 Reply (status r) (Json data)"
      using f assms by (simp add: applepay_payment_reply_def)
  next
    assume "is_json_type (content_type r) \<and> json_body r = Some data \<and>
             next_redirect data = Inl err"
    then show "fst (server_create_applepay_payment e now body ord (Resolved r)) =
                 Reply 500 (Thrown (Some ''PAYMENT_FAILED'') err)"
      using f by (simp add: applepay_payment_reply_def payment_failed_def)
  next
    assume a: "is_json_type (content_type r) \<and> json_body r = Some data \<and>
             next_redirect data = Inr (Some url) \<and> ord = Resolved ro \<and> json_body ro = Some od"
    then have o: "ord = Resolved ro" and j: "json_body ro = Some od" by auto
    show "fst (server_create_applepay_payment e now body ord (Resolved r)) =
                 applepay_redirect (props (Some data) ''razorpay_payment_id'')
                   (props (Some od) ''id'') url"
      using server_applepay_reply[OF i o j] a by (simp add: applepay_payment_reply_def)
  next
    assume "\<not> is_json_type (content_type r) \<and> match_url (text_body r) = None"
    then show "fst (server_create_applepay_payment e now body ord (Resolved r)) =
                 Reply (status r) (error_json (Some ''INVALID_RESPONSE'')
                   ''Received HTML response but could not extract Apple Pay URL''
                   (Some (take 200 (text_body r))))"
      using f by (simp add: applepay_payment_reply_def)
  next
    assume a: "\<not> is_json_type (content_type r) \<and> match_url (text_body r) = Some u \<and>
             ord = Resolved ro \<and> json_body ro = Some od"
    then have o: "ord = Resolved ro" and j: "json_body ro = Some od" by auto
    show "fst (server_create_applepay_payment e now body ord (Resolved r)) =
                 applepay_redirect (Some (or_null (match_payments u))) (props (Some od) ''id'')
                   (JStr u)"
      using server_applepay_reply[OF i o j] a by (simp add: applepay_payment_reply_def)
  }
qed

text \<open>
  The claim as stated fails: a 502 page without a redirect is answered with 502 and the
  page wrapped in an error object, not with the page; a 502 response that declares JSON
  and does not parse is answered with 500; and in the Apple Pay handler a 400 response
  with the JSON body \<^verbatim>\<open>null\<close> is answered with 500.
\<close>

theorem payment_failure_reply_counterexample:
  "fst (server_create_payment demo_env 0 (demo_request ''IN'' demo_card) demo_order
          (Resolved (html_response 502 ''<html>Bad Gateway</html>''))) =
     Reply 502 (Json (JObj [(''error'',
       JObj [(''code'', JStr ''INVALID_RESPONSE''),
             (''description'',
                JStr ''Received HTML response but could not extract authentication URL''),
             (''details'', JStr ''<html>Bad Gateway</html>'')])])) \<and>
   fst (server_create_payment demo_env 0 (demo_request ''IN'' demo_card) demo_order
          (Resolved (unparsed_json_response 502 ''<html>Bad Gateway</html>''))) =
     Reply 500 (Thrown (Some ''PAYMENT_FAILED'') SyntaxError) \<and>
   fst (server_create_applepay_payment demo_env 0 (demo_wallet_request []) demo_order
          (Resolved (json_response 400 JNull))) =
     Reply 500 (Thrown (Some ''PAYMENT_FAILED'') (TypeError ''next''))"
  by (simp add: run_defs payload_defs match_defs unparsed_json_response_def)

theorem payment_failure_reply_witness:
  "fst (server_create_payment demo_env 0 (demo_request ''IN'' demo_card) demo_order
          (Resolved (json_response 400
             (JObj [(''error'', JObj [(''code'', JStr ''BAD_REQUEST_ERROR'')])])))) =
     Reply 400 (Json (JObj [(''error'', JObj [(''code'', JStr ''BAD_REQUEST_ERROR'')])])) \<and>
   fst (server_create_applepay_payment demo_env 0 (demo_wallet_request []) demo_order
          (Resolved (json_response 400 JNull))) =
     Reply 500 (Thrown (Some ''PAYMENT_FAILED'') (TypeError ''next''))"
proof -
  let ?data = "JObj [(''error'', JObj [(''code'', JStr ''BAD_REQUEST_ERROR'')])]"
  have 1: "\<not> ok (json_response 400 ?data)" and n1: "\<not> ok (json_response 400 JNull)"
    by (simp_all add: ok_def json_response_def)
  have 2: "payment_call_issued (server_create_payment demo_env 0 (demo_request ''IN'' demo_card)
             demo_order (Resolved (json_response 400 ?data)))"
    by (simp add: run_defs)
  have n2: "payment_call_issued (server_create_applepay_payment demo_env 0
             (demo_wallet_request []) demo_order (Resolved (json_response 400 JNull)))"
    by (simp add: run_defs)
  have 3: "is_json_type (content_type (json_response 400 ?data)) \<and>
           json_body (json_response 400 ?data) = Some ?data \<and>
           next_redirect ?data = Inr None"
    by (simp add: json_response_def is_json_type_def next_redirect_def)
  have n3: "is_json_type (content_type (json_response 400 JNull)) \<and>
            json_body (json_response 400 JNull) = Some JNull \<and>
            next_redirect JNull = Inl (TypeError ''next'')"
    by (simp add: json_response_def is_json_type_def next_redirect_def)
  have s: "status (json_response 400 ?data) = 400" by (simp add: json_response_def)
  note T = payment_failure_reply[OF 1, where e = demo_env and now = 0
      and body = "demo_request ''IN'' demo_card" and ord = demo_order and data = ?data]
  note Tn = payment_failure_reply[OF n1, where e = demo_env and now = 0
      and body = "demo_wallet_request []" and ord = demo_order and data = JNull
      and err = "TypeError ''next''"]
  have a: "fst (server_create_payment demo_env 0 (demo_request ''IN'' demo_card) demo_order
             (Resolved (json_response 400 ?data))) =
           Reply (status (json_response 400 ?data)) (Json ?data)"
    by (rule mp[OF mp[OF T[THEN conjunct1] 2, THEN conjunct2, THEN conjunct1] 3])
  have b: "fst (server_create_applepay_payment demo_env 0 (demo_wallet_request []) demo_order
             (Resolved (json_response 400 JNull))) =
           Reply 500 (Thrown (Some ''PAYMENT_FAILED'') (TypeError ''next''))"
    by (rule mp[OF mp[OF Tn[THEN conjunct2] n2, THEN conjunct2, THEN conjunct2, THEN conjunct1] n3])
  show ?thesis using a b s by simp
qed

text \<open>
  The serverless card handler does not test the status of the payment response: a JSON
  error body is answered with 200.
\<close>

lemma serverless_card_replies_200:
  "fst (api_create_payment demo_env ''POST'' (demo_request ''IN'' demo_card) demo_order
          (Resolved (json_response 400
             (JObj [(''error'', JObj [(''code'', JStr ''BAD_REQUEST_ERROR'')])])))) =
     Reply 200 (Json (JObj [(''error'', JObj [(''code'', JStr ''BAD_REQUEST_ERROR'')])]))"
  by (simp add: run_defs payload_defs)

section \<open>C6: the redirect and the payment id of a non-JSON payment response\<close>

text \<open>
  The searches return the capture of the leftmost match, and nothing when no position
  matches.
\<close>

lemma search_leftmost:
  assumes "m t0 = Some v"
    and "\<And>p t. p @ t = pre @ t0 \<Longrightarrow> length p < length pre \<Longrightarrow> m t = None"
  shows "search m (pre @ t0) = Some v"
  using assms(2)
proof (induction pre)
  case Nil
  show ?case using assms(1) by (cases t0) simp_all
next
  case (Cons c pre)
  have "m (c # pre @ t0) = None"
    using Cons.prems[of "[]" "c # pre @ t0"] by simp
  moreover have "search m (pre @ t0) = Some v"
  proof (rule Cons.IH)
    fix p t
    assume "p @ t = pre @ t0" and "length p < length pre"
    then show "m t = None" using Cons.prems[of "c # p" t] by simp
  qed
  ultimately show ?case by simp
qed

lemma search_nowhere:
  assumes "\<And>p t. p @ t = s \<Longrightarrow> m t = None"
  shows "search m s = None"
  using assms
proof (induction s)
  case Nil
  then show ?case by simp
next
  case (Cons c cs)
  have "m (c # cs) = None" using Cons.prems[of "[]" "c # cs"] by simp
  moreover have "search m cs = None"
  proof (rule Cons.IH)
    fix p t
    assume "p @ t = cs"
    then show "m t = None" using Cons.prems[of "c # p" t] by simp
  qed
  ultimately show ?case by simp
qed

lemma takeWhile_run:
  "\<forall>x \<in> set w. P x \<Longrightarrow> rest = [] \<or> \<not> P (hd rest) \<Longrightarrow> takeWhile P (w @ rest) = w"
  by (cases rest) (auto simp: takeWhile_append2)

lemma lit_run_here:
  assumes "w \<noteq> []" and "\<forall>c \<in> set w. cls c" and "rest = [] \<or> \<not> cls (hd rest)"
  shows "lit_run lit cls (lit @ w @ rest) = Some w"
proof -
  have t: "takeWhile cls (w @ rest) = w" using assms(2,3) by (rule takeWhile_run)
  have d: "drop (length lit) (lit @ w @ rest) = w @ rest" by simp
  show ?thesis unfolding lit_run_def d t using assms(1) by simp
qed

lemma lit_run_not_here:
  "t = [] \<or> \<not> cls (hd t) \<Longrightarrow> lit_run lit cls (lit @ t) = None"
  by (cases t) (auto simp: lit_run_def)

lemma lit_run_prefix: "lit_run lit cls t \<noteq> None \<Longrightarrow> prefix lit t"
  by (auto simp: lit_run_def split: if_splits)

lemma split_at_prefix: "prefix lit t \<Longrightarrow> \<exists>t'. t = lit @ t'"
  by (auto simp: prefix_def)

lemma lit_search_leftmost:
  assumes "s = pre @ lit @ w @ rest" and "w \<noteq> []" and "\<forall>c \<in> set w. cls c"
    and "rest = [] \<or> \<not> cls (hd rest)"
    and "\<forall>p t. s = p @ lit @ t \<and> length p < length pre \<longrightarrow> t = [] \<or> \<not> cls (hd t)"
  shows "search (lit_run lit cls) s = Some w"
  unfolding assms(1)
proof (rule search_leftmost)
  show "lit_run lit cls (lit @ w @ rest) = Some w"
    using assms(2,3,4) by (rule lit_run_here)
next
  fix p t
  assume e: "p @ t = pre @ lit @ w @ rest" and l: "length p < length pre"
  show "lit_run lit cls t = None"
  proof (rule ccontr)
    assume "lit_run lit cls t \<noteq> None"
    then obtain t' where t: "t = lit @ t'" and n: "lit_run lit cls (lit @ t') \<noteq> None"
      using split_at_prefix[OF lit_run_prefix] by blast
    have "s = p @ lit @ t'" using e t assms(1) by simp
    with l assms(5) have "t' = [] \<or> \<not> cls (hd t')" by blast
    then have "lit_run lit cls (lit @ t') = None" by (rule lit_run_not_here)
    with n show False ..
  qed
qed

lemma lit_search_nowhere:
  assumes "\<forall>p t. s = p @ lit @ t \<longrightarrow> t = [] \<or> \<not> cls (hd t)"
  shows "search (lit_run lit cls) s = None"
proof (rule search_nowhere)
  fix p t
  assume e: "p @ t = s"
  show "lit_run lit cls t = None"
  proof (rule ccontr)
    assume "lit_run lit cls t \<noteq> None"
    then obtain t' where t: "t = lit @ t'" and n: "lit_run lit cls (lit @ t') \<noteq> None"
      using split_at_prefix[OF lit_run_prefix] by blast
    have "s = p @ lit @ t'" using e t by simp
    with assms have "t' = [] \<or> \<not> cls (hd t')" by blast
    then have "lit_run lit cls (lit @ t') = None" by (rule lit_run_not_here)
    with n show False ..
  qed
qed

lemma lit_run_quoted_prefix: "lit_run_quoted t \<noteq> None \<Longrightarrow> prefix ''url='' t"
  by (auto simp: lit_run_quoted_def lit_run_def split: option.splits if_splits)

lemma lit_run_quoted_here:
  assumes "u \<noteq> []" and "quote \<notin> set u" and "rest \<noteq> []" and "hd rest = quote"
  shows "lit_run_quoted (''url='' @ u @ rest) = Some u"
proof -
  have t: "takeWhile not_quote (u @ rest) = u"
    using assms(2,4) by (intro takeWhile_run) (auto simp: not_quote_def)
  show ?thesis
    using assms(1,3) t by (simp add: lit_run_quoted_def lit_run_def)
qed

lemma lit_run_quoted_not_here:
  assumes "t = [] \<or> hd t = quote \<or> quote \<notin> set t"
  shows "lit_run_quoted (''url='' @ t) = None"
proof (cases "t = [] \<or> hd t = quote")
  case True
  then have "lit_run ''url='' not_quote (''url='' @ t) = None"
    by (intro lit_run_not_here) (auto simp: not_quote_def)
  then show ?thesis by (simp add: lit_run_quoted_def)
next
  case False
  with assms have q: "quote \<notin> set t" by simp
  then have tk: "takeWhile not_quote t = t"
    by (auto simp: not_quote_def)
  have d: "drop (length ''url='') (''url='' @ t) = t" by simp
  show ?thesis unfolding lit_run_quoted_def lit_run_def d tk by simp
qed

lemma quoted_search_leftmost:
  assumes "s = pre @ ''url='' @ u @ rest" and "u \<noteq> []" and "quote \<notin> set u"
    and "rest \<noteq> []" and "hd rest = quote"
    and "\<forall>p t. s = p @ ''url='' @ t \<and> length p < length pre \<longrightarrow>
           t = [] \<or> hd t = quote \<or> quote \<notin> set t"
  shows "match_url_quoted s = Some u"
  unfolding assms(1) match_url_quoted_def
proof (rule search_leftmost)
  show "lit_run_quoted (''url='' @ u @ rest) = Some u"
    using assms(2-5) by (rule lit_run_quoted_here)
next
  fix p t
  assume e: "p @ t = pre @ ''url='' @ u @ rest" and l: "length p < length pre"
  show "lit_run_quoted t = None"
  proof (rule ccontr)
    assume "lit_run_quoted t \<noteq> None"
    then obtain t' where t: "t = ''url='' @ t'" and n: "lit_run_quoted (''url='' @ t') \<noteq> None"
      using split_at_prefix[OF lit_run_quoted_prefix] by blast
    have "s = p @ ''url='' @ t'" using e t assms(1) by simp
    with l assms(6) have "t' = [] \<or> hd t' = quote \<or> quote \<notin> set t'" by blast
    then have "lit_run_quoted (''url='' @ t') = None" by (rule lit_run_quoted_not_here)
    with n show False ..
  qed
qed

lemma quoted_search_nowhere:
  assumes "\<forall>p t. s = p @ ''url='' @ t \<longrightarrow> t = [] \<or> hd t = quote \<or> quote \<notin> set t"
  shows "match_url_quoted s = None"
  unfolding match_url_quoted_def
proof (rule search_nowhere)
  fix p t
  assume e: "p @ t = s"
  show "lit_run_quoted t = None"
  proof (rule ccontr)
    assume "lit_run_quoted t \<noteq> None"
    then obtain t' where t: "t = ''url='' @ t'" and n: "lit_run_quoted (''url='' @ t') \<noteq> None"
      using split_at_prefix[OF lit_run_quoted_prefix] by blast
    have "s = p @ ''url='' @ t'" using e t by simp
    with assms have "t' = [] \<or> hd t' = quote \<or> quote \<notin> set t'" by blast
    then have "lit_run_quoted (''url='' @ t') = None" by (rule lit_run_quoted_not_here)
    with n show False ..
  qed
qed

lemma lit_run_id_prefix: "lit_run_id t \<noteq> None \<Longrightarrow> prefix ''razorpay_payment_id'' t"
proof -
  assume "lit_run_id t \<noteq> None"
  then have "prefix ''razorpay_payment_id='' t \<or> prefix ''razorpay_payment_id:'' t"
    by (auto simp: lit_run_id_def lit_run_def split: option.splits if_splits)
  moreover have "prefix ''razorpay_payment_id'' ''razorpay_payment_id=''"
    and "prefix ''razorpay_payment_id'' ''razorpay_payment_id:''"
    by simp_all
  ultimately show ?thesis using prefix_order.trans by blast
qed

lemma lit_run_id_here:
  assumes "sep = CHR ''='' \<or> sep = CHR '':''" and "w \<noteq> []" and "\<forall>c \<in> set w. word_char c"
    and "r2 = [] \<or> \<not> word_char (hd r2)"
  shows "lit_run_id (''razorpay_payment_id'' @ sep # w @ r2) = Some w"
proof -
  have t: "takeWhile word_char (w @ r2) = w"
    using assms(3,4) by (rule takeWhile_run)
  show ?thesis using assms(1,2) t by (auto simp: lit_run_id_def lit_run_def)
qed

lemma lit_run_id_not_here:
  assumes "t = [] \<or> (hd t \<noteq> CHR ''='' \<and> hd t \<noteq> CHR '':'') \<or> tl t = [] \<or> \<not> word_char (hd (tl t))"
  shows "lit_run_id (''razorpay_payment_id'' @ t) = None"
proof (cases t)
  case Nil
  then show ?thesis by (simp add: lit_run_id_def lit_run_def)
next
  case (Cons x xs)
  with assms have "(x \<noteq> CHR ''='' \<and> x \<noteq> CHR '':'') \<or> xs = [] \<or> \<not> word_char (hd xs)" by simp
  then have "(x \<noteq> CHR ''='' \<and> x \<noteq> CHR '':'') \<or> takeWhile word_char xs = []"
    by (cases xs) auto
  with Cons show ?thesis by (auto simp: lit_run_id_def lit_run_def)
qed


lemma id_search_leftmost:
  assumes "s = p2 @ ''razorpay_payment_id'' @ sep # w @ r2"
    and "sep = CHR ''='' \<or> sep = CHR '':''" and "w \<noteq> []" and "\<forall>c \<in> set w. word_char c"
    and "r2 = [] \<or> \<not> word_char (hd r2)"
    and "\<forall>p t. s = p @ ''razorpay_payment_id'' @ t \<and> length p < length p2 \<longrightarrow>
           t = [] \<or> (hd t \<noteq> CHR ''='' \<and> hd t \<noteq> CHR '':'') \<or> tl t = [] \<or>
           \<not> word_char (hd (tl t))"
  shows "match_payment_id s = Some w"
  unfolding assms(1) match_payment_id_def
proof (rule search_leftmost)
  show "lit_run_id (''razorpay_payment_id'' @ sep # w @ r2) = Some w"
    using assms(2-5) by (rule lit_run_id_here)
next
  fix p t
  assume e: "p @ t = p2 @ ''razorpay_payment_id'' @ sep # w @ r2" and l: "length p < length p2"
  show "lit_run_id t = None"
  proof (rule ccontr)
    assume "lit_run_id t \<noteq> None"
    then obtain t' where t: "t = ''razorpay_payment_id'' @ t'"
      and n: "lit_run_id (''razorpay_payment_id'' @ t') \<noteq> None"
      using split_at_prefix[OF lit_run_id_prefix] by blast
    have "s = p @ ''razorpay_payment_id'' @ t'" using e t assms(1) by simp
    with l assms(6) have "t' = [] \<or> (hd t' \<noteq> CHR ''='' \<and> hd t' \<noteq> CHR '':'') \<or> tl t' = [] \<or>
           \<not> word_char (hd (tl t'))" by blast
    then have "lit_run_id (''razorpay_payment_id'' @ t') = None" by (rule lit_run_id_not_here)
    with n show False ..
  qed
qed

lemma id_search_nowhere:
  assumes "\<forall>p t. s = p @ ''razorpay_payment_id'' @ t \<longrightarrow>
           t = [] \<or> (hd t \<noteq> CHR ''='' \<and> hd t \<noteq> CHR '':'') \<or> tl t = [] \<or>
           \<not> word_char (hd (tl t))"
  shows "match_payment_id s = None"
  unfolding match_payment_id_def
proof (rule search_nowhere)
  fix p t
  assume e: "p @ t = s"
  show "lit_run_id t = None"
  proof (rule ccontr)
    assume "lit_run_id t \<noteq> None"
    then obtain t' where t: "t = ''razorpay_payment_id'' @ t'"
      and n: "lit_run_id (''razorpay_payment_id'' @ t') \<noteq> None"
      using split_at_prefix[OF lit_run_id_prefix] by blast
    have "s = p @ ''razorpay_payment_id'' @ t'" using e t by simp
    with assms have "t' = [] \<or> (hd t' \<noteq> CHR ''='' \<and> hd t' \<noteq> CHR '':'') \<or> tl t' = [] \<or>
           \<not> word_char (hd (tl t'))" by blast
    then have "lit_run_id (''razorpay_payment_id'' @ t') = None" by (rule lit_run_id_not_here)
    with n show False ..
  qed
qed

lemma url_search_leftmost:
  assumes "s = pre @ ''url='' @ u @ rest" and "u \<noteq> []" and "quote \<notin> set u"
    and "rest = [] \<or> hd rest = quote"
    and "\<forall>p t. s = p @ ''url='' @ t \<and> length p < length pre \<longrightarrow> t = [] \<or> hd t = quote"
  shows "match_url s = Some u"
  unfolding match_url_def
  using assms by (intro lit_search_leftmost[where pre = pre and rest = rest])
    (auto simp: not_quote_def)

lemma url_search_nowhere:
  assumes "\<forall>p t. s = p @ ''url='' @ t \<longrightarrow> t = [] \<or> hd t = quote"
  shows "match_url s = None"
  unfolding match_url_def
  using assms by (intro lit_search_nowhere) (auto simp: not_quote_def)

lemma payments_search_leftmost:
  assumes "u = base @ ''payments/'' @ seg @ tail" and "seg \<noteq> []" and "CHR ''/'' \<notin> set seg"
    and "tail = [] \<or> hd tail = CHR ''/''"
    and "\<forall>b t. u = b @ ''payments/'' @ t \<and> length b < length base \<longrightarrow> t = [] \<or> hd t = CHR ''/''"
  shows "match_payments u = Some seg"
  unfolding match_payments_def
  using assms by (intro lit_search_leftmost[where pre = base and rest = tail])
    (auto simp: not_slash_def)

lemma payments_search_nowhere:
  assumes "\<forall>b t. u = b @ ''payments/'' @ t \<longrightarrow> t = [] \<or> hd t = CHR ''/''"
  shows "match_payments u = None"
  unfolding match_payments_def
  using assms by (intro lit_search_nowhere) (auto simp: not_slash_def)

lemma decompositions_before:
  assumes "\<forall>j \<in> set [0..<n]. prefix lit (drop j s) \<longrightarrow> Q (drop (j + length lit) s)"
  shows "\<forall>p t. s = p @ lit @ t \<and> length p < n \<longrightarrow> Q t"
proof (intro allI impI)
  fix p t
  assume a: "s = p @ lit @ t \<and> length p < n"
  then have "length p \<in> set [0..<n]" by simp
  moreover have "drop (length p) s = lit @ t" using a by simp
  moreover have "drop (length p + length lit) s = t" using a by simp
  ultimately show "Q t" using assms by (metis prefixI)
qed

text \<open>
  Every text has a leftmost match or no match at all, so the two cases of each search
  cover every body and every URL.
\<close>

lemma leftmost_or_nowhere:
  "(\<exists>pre w rest. s = pre @ lit @ w @ rest \<and> w \<noteq> [] \<and> (\<forall>c \<in> set w. cls c) \<and>
      (rest = [] \<or> \<not> cls (hd rest)) \<and>
      (\<forall>p t. s = p @ lit @ t \<and> length p < length pre \<longrightarrow> t = [] \<or> \<not> cls (hd t))) \<or>
   (\<forall>p t. s = p @ lit @ t \<longrightarrow> t = [] \<or> \<not> cls (hd t))"
proof (cases "\<forall>p t. s = p @ lit @ t \<longrightarrow> t = [] \<or> \<not> cls (hd t)")
  case True
  then show ?thesis by blast
next
  case False
  define Q where "Q n = (\<exists>p t. s = p @ lit @ t \<and> length p = n \<and> t \<noteq> [] \<and> cls (hd t))" for n
  from False obtain p t where "s = p @ lit @ t" and "t \<noteq> []" and "cls (hd t)" by blast
  then have "Q (length p)" unfolding Q_def by blast
  then have least: "Q (LEAST n. Q n)" by (rule LeastI)
  then obtain pre t0 where s: "s = pre @ lit @ t0" and n: "length pre = (LEAST n. Q n)"
    and t0: "t0 \<noteq> []" and c: "cls (hd t0)"
    unfolding Q_def by blast
  have w: "takeWhile cls t0 \<noteq> []" using t0 c by (simp add: takeWhile_eq_Nil_iff)
  have a: "\<forall>c \<in> set (takeWhile cls t0). cls c" by (auto dest: set_takeWhileD)
  have r: "dropWhile cls t0 = [] \<or> \<not> cls (hd (dropWhile cls t0))"
    by (cases "dropWhile cls t0 = []") (auto simp: hd_dropWhile)
  have e: "s = pre @ lit @ takeWhile cls t0 @ dropWhile cls t0" using s by simp
  have b: "\<forall>p t. s = p @ lit @ t \<and> length p < length pre \<longrightarrow> t = [] \<or> \<not> cls (hd t)"
  proof (intro allI impI)
    fix p t
    assume h: "s = p @ lit @ t \<and> length p < length pre"
    then have "\<not> Q (length p)" using n not_less_Least by metis
    with h show "t = [] \<or> \<not> cls (hd t)" unfolding Q_def by blast
  qed
  show ?thesis using e w a r b by blast
qed

lemma url_match_or_not:
  "(\<exists>pre u rest. s = pre @ ''url='' @ u @ rest \<and> u \<noteq> [] \<and> quote \<notin> set u \<and>
      (rest = [] \<or> hd rest = quote) \<and>
      (\<forall>p t. s = p @ ''url='' @ t \<and> length p < length pre \<longrightarrow> t = [] \<or> hd t = quote)) \<or>
   (\<forall>p t. s = p @ ''url='' @ t \<longrightarrow> t = [] \<or> hd t = quote)"
proof -
  have "(\<forall>c \<in> set w. not_quote c) = (quote \<notin> set w)" for w
    by (auto simp: not_quote_def)
  moreover have "(\<not> not_quote c) = (c = quote)" for c
    by (simp add: not_quote_def)
  ultimately show ?thesis
    using leftmost_or_nowhere[of s "''url=''" not_quote] by simp
qed

lemma payments_match_or_not:
  "(\<exists>base seg tail. u = base @ ''payments/'' @ seg @ tail \<and> seg \<noteq> [] \<and> CHR ''/'' \<notin> set seg \<and>
      (tail = [] \<or> hd tail = CHR ''/'') \<and>
      (\<forall>b t. u = b @ ''payments/'' @ t \<and> length b < length base \<longrightarrow>
             t = [] \<or> hd t = CHR ''/'')) \<or>
   (\<forall>b t. u = b @ ''payments/'' @ t \<longrightarrow> t = [] \<or> hd t = CHR ''/'')"
proof -
  have "(\<forall>c \<in> set w. not_slash c) = (CHR ''/'' \<notin> set w)" for w
    by (auto simp: not_slash_def)
  moreover have "(\<not> not_slash c) = (c = CHR ''/'')" for c
    by (simp add: not_slash_def)
  ultimately show ?thesis
    using leftmost_or_nowhere[of u "''payments/''" not_slash] by simp
qed

text \<open>
  Claim C6, as amended. Let the content type not indicate JSON. An occurrence of \<^verbatim>\<open>url=\<close>
  in the body matches when a character other than a double quote follows it; the
  extracted URL is the run of such characters after the leftmost match.
  \<^item> If the body has a match, the handlers of \<^verbatim>\<open>server.js\<close> reply with the redirect to the
    extracted URL. If it has none (as when every \<^verbatim>\<open>url=\<close> is directly followed by a double
    quote or by the end of the body), they reply with the response's status and the
    \<^verbatim>\<open>INVALID_RESPONSE\<close> error of claim C7.
  \<^item> Their payment id is the run of characters other than a slash after the leftmost
    \<^verbatim>\<open>payments/\<close> of the extracted URL that is followed by such a character (so a query
    string that follows the identifier without a slash is part of it), and \<^verbatim>\<open>null\<close> when
    the URL has no such \<^verbatim>\<open>payments/\<close>.
  \<^item> For the serverless handlers an occurrence of \<^verbatim>\<open>url=\<close> matches when, in addition, the
    run ends at a double quote. If the body has such a match they reply with the redirect
    to the run after the leftmost one, and with status 500 and the fixed description
    otherwise.
  \<^item> Their payment id is the run of letters, digits and underscores after the leftmost
    \<^verbatim>\<open>razorpay_payment_id=\<close> or \<^verbatim>\<open>razorpay_payment_id:\<close> of the body that is followed by such a
    character, and \<^verbatim>\<open>unknown\<close> when the body has none; the path of the URL is not
    consulted.
\<close>

theorem html_redirect_extraction:
  assumes nj: "\<not> is_json_type (content_type r)"
  shows "(text_body r = pre @ ''url='' @ u @ rest \<and> u \<noteq> [] \<and> quote \<notin> set u \<and>
          (rest = [] \<or> hd rest = quote) \<and>
          (\<forall>p t. text_body r = p @ ''url='' @ t \<and> length p < length pre \<longrightarrow>
                 t = [] \<or> hd t = quote) \<longrightarrow>
            (payment_call_issued (server_create_payment e now body ord (Resolved r)) \<and>
             ord = Resolved ro \<and> json_body ro = Some od \<longrightarrow>
               fst (server_create_payment e now body ord (Resolved r)) =
                 card_redirect (or_null (match_payments u)) (props (Some od) ''id'') u) \<and>
            (payment_call_issued (server_create_applepay_payment e now body ord (Resolved r)) \<and>
             ord = Resolved ro \<and> json_body ro = Some od \<longrightarrow>
               fst (server_create_applepay_payment e now body ord (Resolved r)) =
                 applepay_redirect (Some (or_null (match_payments u))) (props (Some od) ''id'')
                   (JStr u))) \<and>
         ((\<forall>p t. text_body r = p @ ''url='' @ t \<longrightarrow> t = [] \<or> hd t = quote) \<longrightarrow>
            (payment_call_issued (server_create_payment e now body ord (Resolved r)) \<longrightarrow>
               fst (server_create_payment e now body ord (Resolved r)) =
                 Reply (status r) (error_json (Some ''INVALID_RESPONSE'')
                   ''Received HTML response but could not extract authentication URL''
                   (Some (take 200 (text_body r))))) \<and>
            (payment_call_issued (server_create_applepay_payment e now body ord (Resolved r)) \<longrightarrow>
               fst (server_create_applepay_payment e now body ord (Resolved r)) =
                 Reply (status r) (error_json (Some ''INVALID_RESPONSE'')
                   ''Received HTML response but could not extract Apple Pay URL''
                   (Some (take 200 (text_body r)))))) \<and>
         (u = base @ ''payments/'' @ seg @ tail \<and> seg \<noteq> [] \<and> CHR ''/'' \<notin> set seg \<and>
          (tail = [] \<or> hd tail = CHR ''/'') \<and>
          (\<forall>b t. u = b @ ''payments/'' @ t \<and> length b < length base \<longrightarrow>
                 t = [] \<or> hd t = CHR ''/'') \<longrightarrow>
            or_null (match_payments u) = JStr seg) \<and>
         ((\<forall>b t. u = b @ ''payments/'' @ t \<longrightarrow> t = [] \<or> hd t = CHR ''/'') \<longrightarrow>
            or_null (match_payments u) = JNull) \<and>
         (text_body r = pre @ ''url='' @ u @ rest \<and> u \<noteq> [] \<and> quote \<notin> set u \<and>
          rest \<noteq> [] \<and> hd rest = quote \<and>
          (\<forall>p t. text_body r = p @ ''url='' @ t \<and> length p < length pre \<longrightarrow>
                 t = [] \<or> hd t = quote \<or> quote \<notin> set t) \<longrightarrow>
            (payment_call_issued (api_create_payment e m body ord (Resolved r)) \<longrightarrow>
               fst (api_create_payment e m body ord (Resolved r)) =
                 api_card_redirect (Some (or_unknown (match_payment_id (text_body r))))
                   (JStr u)) \<and>
            (payment_call_issued (api_create_applepay_payment e m body ord (Resolved r)) \<longrightarrow>
               fst (api_create_applepay_payment e m body ord (Resolved r)) =
                 api_applepay_redirect (Some (or_unknown (match_payment_id (text_body r))))
                   (JStr u))) \<and>
         ((\<forall>p t. text_body r = p @ ''url='' @ t \<longrightarrow>
                 t = [] \<or> hd t = quote \<or> quote \<notin> set t) \<longrightarrow>
            (payment_call_issued (api_create_payment e m body ord (Resolved r)) \<longrightarrow>
               fst (api_create_payment e m body ord (Resolved r)) =
                 Reply 500 (error_json None ''Failed to parse payment response'' None)) \<and>
            (payment_call_issued (api_create_applepay_payment e m body ord (Resolved r)) \<longrightarrow>
               fst (api_create_applepay_payment e m body ord (Resolved r)) =
                 Reply 500 (error_json None ''Failed to parse Apple Pay response'' None))) \<and>
         (text_body r = p2 @ ''razorpay_payment_id'' @ sep # w @ r2 \<and>
          (sep = CHR ''='' \<or> sep = CHR '':'') \<and> w \<noteq> [] \<and> (\<forall>c \<in> set w. word_char c) \<and>
          (r2 = [] \<or> \<not> word_char (hd r2)) \<and>
          (\<forall>p t. text_body r = p @ ''razorpay_payment_id'' @ t \<and> length p < length p2 \<longrightarrow>
                 t = [] \<or> (hd t \<noteq> CHR ''='' \<and> hd t \<noteq> CHR '':'') \<or> tl t = [] \<or>
                 \<not> word_char (hd (tl t))) \<longrightarrow>
            or_unknown (match_payment_id (text_body r)) = JStr w) \<and>
         ((\<forall>p t. text_body r = p @ ''razorpay_payment_id'' @ t \<longrightarrow>
                 t = [] \<or> (hd t \<noteq> CHR ''='' \<and> hd t \<noteq> CHR '':'') \<or> tl t = [] \<or>
                 \<not> word_char (hd (tl t))) \<longrightarrow>
            or_unknown (match_payment_id (text_body r)) = JStr ''unknown'')"
proof (intro conjI)
  show "text_body r = pre @ ''url='' @ u @ rest \<and> u \<noteq> [] \<and> quote \<notin> set u \<and>
          (rest = [] \<or> hd rest = quote) \<and>
          (\<forall>p t. text_body r = p @ ''url='' @ t \<and> length p < length pre \<longrightarrow>
                 t = [] \<or> hd t = quote) \<longrightarrow>
            (payment_call_issued (server_create_payment e now body ord (Resolved r)) \<and>
             ord = Resolved ro \<and> json_body ro = Some od \<longrightarrow>
               fst (server_create_payment e now body ord (Resolved r)) =
                 card_redirect (or_null (match_payments u)) (props (Some od) ''id'') u) \<and>
            (payment_call_issued (server_create_applepay_payment e now body ord (Resolved r)) \<and>
             ord = Resolved ro \<and> json_body ro = Some od \<longrightarrow>
               fst (server_create_applepay_payment e now body ord (Resolved r)) =
                 applepay_redirect (Some (or_null (match_payments u))) (props (Some od) ''id'')
                   (JStr u))"
  proof (intro impI conjI)
    assume h: "text_body r = pre @ ''url='' @ u @ rest \<and> u \<noteq> [] \<and> quote \<notin> set u \<and>
          (rest = [] \<or> hd rest = quote) \<and>
          (\<forall>p t. text_body r = p @ ''url='' @ t \<and> length p < length pre \<longrightarrow>
                 t = [] \<or> hd t = quote)"
    then have h1: "text_body r = pre @ ''url='' @ u @ rest" and h2: "u \<noteq> []"
      and h3: "quote \<notin> set u" and h4: "rest = [] \<or> hd rest = quote"
      and h5: "\<forall>p t. text_body r = p @ ''url='' @ t \<and> length p < length pre \<longrightarrow>
                 t = [] \<or> hd t = quote"
      by blast+
    have mu: "match_url (text_body r) = Some u"
      using h1 h2 h3 h4 h5 by (rule url_search_leftmost)
    {
      assume a: "payment_call_issued (server_create_payment e now body ord (Resolved r)) \<and>
             ord = Resolved ro \<and> json_body ro = Some od"
      then have i: "payment_call_issued (server_create_payment e now body ord (Resolved r))"
        and o: "ord = Resolved ro" and j: "json_body ro = Some od" by auto
      show "fst (server_create_payment e now body ord (Resolved r)) =
                 card_redirect (or_null (match_payments u)) (props (Some od) ''id'') u"
        using server_card_reply[OF i o j] nj mu by (simp add: card_payment_reply_def)
    next
      assume a: "payment_call_issued (server_create_applepay_payment e now body ord (Resolved r)) \<and>
             ord = Resolved ro \<and> json_body ro = Some od"
      then have i: "payment_call_issued (server_create_applepay_payment e now body ord (Resolved r))"
        and o: "ord = Resolved ro" and j: "json_body ro = Some od" by auto
      show "fst (server_create_applepay_payment e now body ord (Resolved r)) =
                 applepay_redirect (Some (or_null (match_payments u))) (props (Some od) ''id'')
                   (JStr u)"
        using server_applepay_reply[OF i o j] nj mu by (simp add: applepay_payment_reply_def)
    }
  qed
next
  show "(\<forall>p t. text_body r = p @ ''url='' @ t \<longrightarrow> t = [] \<or> hd t = quote) \<longrightarrow>
            (payment_call_issued (server_create_payment e now body ord (Resolved r)) \<longrightarrow>
               fst (server_create_payment e now body ord (Resolved r)) =
                 Reply (status r) (error_json (Some ''INVALID_RESPONSE'')
                   ''Received HTML response but could not extract authentication URL''
                   (Some (take 200 (text_body r))))) \<and>
            (payment_call_issued (server_create_applepay_payment e now body ord (Resolved r)) \<longrightarrow>
               fst (server_create_applepay_payment e now body ord (Resolved r)) =
                 Reply (status r) (error_json (Some ''INVALID_RESPONSE'')
                   ''Received HTML response but could not extract Apple Pay URL''
                   (Some (take 200 (text_body r)))))"
  proof (intro impI conjI)
    assume "\<forall>p t. text_body r = p @ ''url='' @ t \<longrightarrow> t = [] \<or> hd t = quote"
    then have mu: "match_url (text_body r) = None" by (rule url_search_nowhere)
    {
      assume "payment_call_issued (server_create_payment e now body ord (Resolved r))"
      from server_card_issued[OF this]
      show "fst (server_create_payment e now body ord (Resolved r)) =
                 Reply (status r) (error_json (Some ''INVALID_RESPONSE'')
                   ''Received HTML response but could not extract authentication URL''
                   (Some (take 200 (text_body r))))"
        using nj mu by (auto simp: card_payment_reply_def)
    next
      assume "payment_call_issued (server_create_applepay_payment e now body ord (Resolved r))"
      from server_applepay_issued[OF this]
      show "fst (server_create_applepay_payment e now body ord (Resolved r)) =
                 Reply (status r) (error_json (Some ''INVALID_RESPONSE'')
                   ''Received HTML response but could not extract Apple Pay URL''
                   (Some (take 200 (text_body r))))"
        using nj mu by (auto simp: applepay_payment_reply_def)
    }
  qed
next
  show "u = base @ ''payments/'' @ seg @ tail \<and> seg \<noteq> [] \<and> CHR ''/'' \<notin> set seg \<and>
          (tail = [] \<or> hd tail = CHR ''/'') \<and>
          (\<forall>b t. u = b @ ''payments/'' @ t \<and> length b < length base \<longrightarrow>
                 t = [] \<or> hd t = CHR ''/'') \<longrightarrow>
            or_null (match_payments u) = JStr seg"
  proof
    assume "u = base @ ''payments/'' @ seg @ tail \<and> seg \<noteq> [] \<and> CHR ''/'' \<notin> set seg \<and>
          (tail = [] \<or> hd tail = CHR ''/'') \<and>
          (\<forall>b t. u = b @ ''payments/'' @ t \<and> length b < length base \<longrightarrow>
                 t = [] \<or> hd t = CHR ''/'')"
    then have h1: "u = base @ ''payments/'' @ seg @ tail" and h2: "seg \<noteq> []"
      and h3: "CHR ''/'' \<notin> set seg" and h4: "tail = [] \<or> hd tail = CHR ''/''"
      and h5: "\<forall>b t. u = b @ ''payments/'' @ t \<and> length b < length base \<longrightarrow>
                 t = [] \<or> hd t = CHR ''/''"
      by blast+
    have "match_payments u = Some seg"
      using h1 h2 h3 h4 h5 by (rule payments_search_leftmost)
    then show "or_null (match_payments u) = JStr seg" by (simp add: or_null_def)
  qed
next
  show "(\<forall>b t. u = b @ ''payments/'' @ t \<longrightarrow> t = [] \<or> hd t = CHR ''/'') \<longrightarrow>
            or_null (match_payments u) = JNull"
  proof
    assume "\<forall>b t. u = b @ ''payments/'' @ t \<longrightarrow> t = [] \<or> hd t = CHR ''/''"
    then have "match_payments u = None" by (rule payments_search_nowhere)
    then show "or_null (match_payments u) = JNull" by (simp add: or_null_def)
  qed
next
  show "text_body r = pre @ ''url='' @ u @ rest \<and> u \<noteq> [] \<and> quote \<notin> set u \<and>
          rest \<noteq> [] \<and> hd rest = quote \<and>
          (\<forall>p t. text_body r = p @ ''url='' @ t \<and> length p < length pre \<longrightarrow>
                 t = [] \<or> hd t = quote \<or> quote \<notin> set t) \<longrightarrow>
            (payment_call_issued (api_create_payment e m body ord (Resolved r)) \<longrightarrow>
               fst (api_create_payment e m body ord (Resolved r)) =
                 api_card_redirect (Some (or_unknown (match_payment_id (text_body r))))
                   (JStr u)) \<and>
            (payment_call_issued (api_create_applepay_payment e m body ord (Resolved r)) \<longrightarrow>
               fst (api_create_applepay_payment e m body ord (Resolved r)) =
                 api_applepay_redirect (Some (or_unknown (match_payment_id (text_body r))))
                   (JStr u))"
  proof (intro impI conjI)
    assume "text_body r = pre @ ''url='' @ u @ rest \<and> u \<noteq> [] \<and> quote \<notin> set u \<and>
          rest \<noteq> [] \<and> hd rest = quote \<and>
          (\<forall>p t. text_body r = p @ ''url='' @ t \<and> length p < length pre \<longrightarrow>
                 t = [] \<or> hd t = quote \<or> quote \<notin> set t)"
    then have h1: "text_body r = pre @ ''url='' @ u @ rest" and h2: "u \<noteq> []"
      and h3: "quote \<notin> set u" and h4: "rest \<noteq> []" and h5: "hd rest = quote"
      and h6: "\<forall>p t. text_body r = p @ ''url='' @ t \<and> length p < length pre \<longrightarrow>
                 t = [] \<or> hd t = quote \<or> quote \<notin> set t"
      by blast+
    have mq: "match_url_quoted (text_body r) = Some u"
      using h1 h2 h3 h4 h5 h6 by (rule quoted_search_leftmost)
    have v: "api_payment_reply redirect description r =
             Inr (redirect (Some (or_unknown (match_payment_id (text_body r)))) (JStr u))"
      for redirect description
      using nj mq by (simp add: api_payment_reply_def)
    {
      assume "payment_call_issued (api_create_payment e m body ord (Resolved r))"
      then show "fst (api_create_payment e m body ord (Resolved r)) =
                 api_card_redirect (Some (or_unknown (match_payment_id (text_body r))))
                   (JStr u)"
        unfolding api_create_payment_def by (simp add: api_reply v)
    next
      assume "payment_call_issued (api_create_applepay_payment e m body ord (Resolved r))"
      then show "fst (api_create_applepay_payment e m body ord (Resolved r)) =
                 api_applepay_redirect (Some (or_unknown (match_payment_id (text_body r))))
                   (JStr u)"
        unfolding api_create_applepay_payment_def by (simp add: api_reply v)
    }
  qed
next
  show "(\<forall>p t. text_body r = p @ ''url='' @ t \<longrightarrow>
                 t = [] \<or> hd t = quote \<or> quote \<notin> set t) \<longrightarrow>
            (payment_call_issued (api_create_payment e m body ord (Resolved r)) \<longrightarrow>
               fst (api_create_payment e m body ord (Resolved r)) =
                 Reply 500 (error_json None ''Failed to parse payment response'' None)) \<and>
            (payment_call_issued (api_create_applepay_payment e m body ord (Resolved r)) \<longrightarrow>
               fst (api_create_applepay_payment e m body ord (Resolved r)) =
                 Reply 500 (error_json None ''Failed to parse Apple Pay response'' None))"
  proof (intro impI conjI)
    assume "\<forall>p t. text_body r = p @ ''url='' @ t \<longrightarrow>
                 t = [] \<or> hd t = quote \<or> quote \<notin> set t"
    then have mq: "match_url_quoted (text_body r) = None" by (rule quoted_search_nowhere)
    have v: "api_payment_reply redirect description r =
             Inr (Reply 500 (error_json None description None))" for redirect description
      using nj mq by (simp add: api_payment_reply_def)
    {
      assume "payment_call_issued (api_create_payment e m body ord (Resolved r))"
      then show "fst (api_create_payment e m body ord (Resolved r)) =
                 Reply 500 (error_json None ''Failed to parse payment response'' None)"
        unfolding api_create_payment_def by (simp add: api_reply v)
    next
      assume "payment_call_issued (api_create_applepay_payment e m body ord (Resolved r))"
      then show "fst (api_create_applepay_payment e m body ord (Resolved r)) =
                 Reply 500 (error_json None ''Failed to parse Apple Pay response'' None)"
        unfolding api_create_applepay_payment_def by (simp add: api_reply v)
    }
  qed
next
  show "text_body r = p2 @ ''razorpay_payment_id'' @ sep # w @ r2 \<and>
          (sep = CHR ''='' \<or> sep = CHR '':'') \<and> w \<noteq> [] \<and> (\<forall>c \<in> set w. word_char c) \<and>
          (r2 = [] \<or> \<not> word_char (hd r2)) \<and>
          (\<forall>p t. text_body r = p @ ''razorpay_payment_id'' @ t \<and> length p < length p2 \<longrightarrow>
                 t = [] \<or> (hd t \<noteq> CHR ''='' \<and> hd t \<noteq> CHR '':'') \<or> tl t = [] \<or>
                 \<not> word_char (hd (tl t))) \<longrightarrow>
            or_unknown (match_payment_id (text_body r)) = JStr w"
  proof
    assume "text_body r = p2 @ ''razorpay_payment_id'' @ sep # w @ r2 \<and>
          (sep = CHR ''='' \<or> sep = CHR '':'') \<and> w \<noteq> [] \<and> (\<forall>c \<in> set w. word_char c) \<and>
          (r2 = [] \<or> \<not> word_char (hd r2)) \<and>
          (\<forall>p t. text_body r = p @ ''razorpay_payment_id'' @ t \<and> length p < length p2 \<longrightarrow>
                 t = [] \<or> (hd t \<noteq> CHR ''='' \<and> hd t \<noteq> CHR '':'') \<or> tl t = [] \<or>
                 \<not> word_char (hd (tl t)))"
    then have h1: "text_body r = p2 @ ''razorpay_payment_id'' @ sep # w @ r2"
      and h2: "sep = CHR ''='' \<or> sep = CHR '':''" and h3: "w \<noteq> []"
      and h4: "\<forall>c \<in> set w. word_char c" and h5: "r2 = [] \<or> \<not> word_char (hd r2)"
      and h6: "\<forall>p t. text_body r = p @ ''razorpay_payment_id'' @ t \<and> length p < length p2 \<longrightarrow>
                 t = [] \<or> (hd t \<noteq> CHR ''='' \<and> hd t \<noteq> CHR '':'') \<or> tl t = [] \<or>
                 \<not> word_char (hd (tl t))"
      by blast+
    have "match_payment_id (text_body r) = Some w"
      using h1 h2 h3 h4 h5 h6 by (rule id_search_leftmost)
    then show "or_unknown (match_payment_id (text_body r)) = JStr w"
      by (simp add: or_unknown_def)
  qed
next
  show "(\<forall>p t. text_body r = p @ ''razorpay_payment_id'' @ t \<longrightarrow>
                 t = [] \<or> (hd t \<noteq> CHR ''='' \<and> hd t \<noteq> CHR '':'') \<or> tl t = [] \<or>
                 \<not> word_char (hd (tl t))) \<longrightarrow>
            or_unknown (match_payment_id (text_body r)) = JStr ''unknown''"
  proof
    assume "\<forall>p t. text_body r = p @ ''razorpay_payment_id'' @ t \<longrightarrow>
                 t = [] \<or> (hd t \<noteq> CHR ''='' \<and> hd t \<noteq> CHR '':'') \<or> tl t = [] \<or>
                 \<not> word_char (hd (tl t))"
    then have "match_payment_id (text_body r) = None" by (rule id_search_nowhere)
    then show "or_unknown (match_payment_id (text_body r)) = JStr ''unknown''"
      by (simp add: or_unknown_def)
  qed
qed

text \<open>
  The claim as stated fails: for the URL \<^verbatim>\<open>https://example.com/payments/pay_123?key=1\<close> the
  handler of \<^verbatim>\<open>server.js\<close> gives the payment id \<^verbatim>\<open>pay_123?key=1\<close>; for a URL without
  \<^verbatim>\<open>payments/\<close> it gives \<^verbatim>\<open>null\<close>, not \<^verbatim>\<open>unknown\<close>; the serverless handler gives
  \<^verbatim>\<open>unknown\<close> for the first URL; and a body in which \<^verbatim>\<open>url=\<close> is directly followed by a
  double quote is answered with \<^verbatim>\<open>INVALID_RESPONSE\<close>, not with a redirect.
\<close>

theorem html_redirect_extraction_counterexample:
  "fst (server_create_payment demo_env 0 (demo_request ''IN'' demo_card) demo_order
          (Resolved (html_response 200
             (''<meta content='' @ [quote] @ ''0;url=https://example.com/payments/pay_123?key=1''
                @ [quote] @ ''>'')))) =
     card_redirect (JStr ''pay_123?key=1'') (Some (JStr ''order_abc''))
       ''https://example.com/payments/pay_123?key=1'' \<and>
   fst (server_create_payment demo_env 0 (demo_request ''IN'' demo_card) demo_order
          (Resolved (html_response 200
             (''<meta content='' @ [quote] @ ''0;url=https://example.com/3ds''
                @ [quote] @ ''>'')))) =
     card_redirect JNull (Some (JStr ''order_abc'')) ''https://example.com/3ds'' \<and>
   fst (api_create_payment demo_env ''POST'' (demo_request ''IN'' demo_card) demo_order
          (Resolved (html_response 200
             (''<meta content='' @ [quote] @ ''0;url=https://example.com/payments/pay_123?key=1''
                @ [quote] @ ''>'')))) =
     api_card_redirect (Some (JStr ''unknown''))
       (JStr ''https://example.com/payments/pay_123?key=1'') \<and>
   fst (server_create_payment demo_env 0 (demo_request ''IN'' demo_card) demo_order
          (Resolved (html_response 200
             (''<meta url='' @ [quote] @ ''https://example.com/payments/pay_123''
                @ [quote] @ ''>'')))) =
     Reply 200 (error_json (Some ''INVALID_RESPONSE'')
       ''Received HTML response but could not extract authentication URL''
       (Some (''<meta url='' @ [quote] @ ''https://example.com/payments/pay_123''
                @ [quote] @ ''>'')))"
  by (simp add: run_defs match_defs or_null_def or_unknown_def)

theorem html_redirect_extraction_witness:
  "fst (server_create_payment demo_env 0 (demo_request ''IN'' demo_card) demo_order
          (Resolved (html_response 200
             (''<a url='' @ [quote] @ [quote] @ ''><meta content='' @ [quote] @
              ''0;url=https://api.x/payments/pay_2/authenticate'' @ [quote] @ ''>'')))) =
     card_redirect (JStr ''pay_2'') (Some (JStr ''order_abc''))
       ''https://api.x/payments/pay_2/authenticate'' \<and>
   fst (server_create_payment demo_env 0 (demo_request ''IN'' demo_card) demo_order
          (Resolved (html_response 200 (''<meta url='' @ [quote] @ ''x'' @ [quote] @ ''>'')))) =
     Reply 200 (error_json (Some ''INVALID_RESPONSE'')
       ''Received HTML response but could not extract authentication URL''
       (Some (''<meta url='' @ [quote] @ ''x'' @ [quote] @ ''>'')))"
proof -
  let ?u = "''https://api.x/payments/pay_2/authenticate''"
  let ?pre = "''<a url='' @ [quote] @ [quote] @ ''><meta content='' @ [quote] @ ''0;''"
  let ?t = "''<a url='' @ [quote] @ [quote] @ ''><meta content='' @ [quote] @
              ''0;url=https://api.x/payments/pay_2/authenticate'' @ [quote] @ ''>''"
  let ?r = "html_response 200 ?t"
  let ?t2 = "''<meta url='' @ [quote] @ ''x'' @ [quote] @ ''>''"
  let ?r2 = "html_response 200 ?t2"
  let ?od = "JObj [(''id'', JStr ''order_abc'')]"
  let ?ro = "Response 200 (Some ''application/json'') [] (Some ?od)"
  have nj: "\<not> is_json_type (content_type ?r)" and nj2: "\<not> is_json_type (content_type ?r2)"
    by (simp_all add: html_response_def is_json_type_def)
  have tb: "text_body ?r = ?t" and tb2: "text_body ?r2 = ?t2" and st2: "status ?r2 = 200"
    by (simp_all add: html_response_def)
  have before: "\<forall>p t. ?t = p @ ''url='' @ t \<and> length p < length ?pre \<longrightarrow> t = [] \<or> hd t = quote"
    by (rule decompositions_before) (simp add: quote_def)
  have a: "text_body ?r = ?pre @ ''url='' @ ?u @ (quote # ''>'') \<and> ?u \<noteq> [] \<and> quote \<notin> set ?u \<and>
          (quote # ''>'' = [] \<or> hd (quote # ''>'') = quote) \<and>
          (\<forall>p t. text_body ?r = p @ ''url='' @ t \<and> length p < length ?pre \<longrightarrow>
                 t = [] \<or> hd t = quote)"
    unfolding tb using before by (simp add: quote_def)
  have i: "payment_call_issued (server_create_payment demo_env 0 (demo_request ''IN'' demo_card)
             demo_order (Resolved ?r)) \<and> demo_order = Resolved ?ro \<and> json_body ?ro = Some ?od"
    by (simp add: run_defs match_defs)
  have c: "?u = ''https://api.x/'' @ ''payments/'' @ ''pay_2'' @ ''/authenticate'' \<and>
           ''pay_2'' \<noteq> [] \<and> CHR ''/'' \<notin> set ''pay_2'' \<and>
           (''/authenticate'' = [] \<or> hd ''/authenticate'' = CHR ''/'') \<and>
           (\<forall>b t. ?u = b @ ''payments/'' @ t \<and> length b < length ''https://api.x/'' \<longrightarrow>
                  t = [] \<or> hd t = CHR ''/'')"
  proof -
    have "\<forall>b t. ?u = b @ ''payments/'' @ t \<and> length b < length ''https://api.x/'' \<longrightarrow>
                  t = [] \<or> hd t = CHR ''/''"
      by (rule decompositions_before) simp
    then show ?thesis by simp
  qed
  have nowhere: "\<forall>p t. text_body ?r2 = p @ ''url='' @ t \<longrightarrow> t = [] \<or> hd t = quote"
  proof (intro allI impI)
    fix p t
    assume e: "text_body ?r2 = p @ ''url='' @ t"
    then have "length p < Suc (length ?t2)" unfolding tb2 by (metis length_append less_Suc_eq_le le_add1)
    moreover have "\<forall>p t. ?t2 = p @ ''url='' @ t \<and> length p < Suc (length ?t2) \<longrightarrow>
                     t = [] \<or> hd t = quote"
      by (rule decompositions_before) (simp add: quote_def)
    ultimately show "t = [] \<or> hd t = quote" using e unfolding tb2 by blast
  qed
  have i2: "payment_call_issued (server_create_payment demo_env 0 (demo_request ''IN'' demo_card)
             demo_order (Resolved ?r2))"
    by (simp add: run_defs match_defs)
  note T = html_redirect_extraction[OF nj, where pre = ?pre and u = ?u and rest = "quote # ''>''"
      and e = demo_env and now = 0 and body = "demo_request ''IN'' demo_card"
      and ord = demo_order and ro = ?ro and od = ?od
      and base = "''https://api.x/''" and seg = "''pay_2''" and tail = "''/authenticate''"]
  note T2 = html_redirect_extraction[OF nj2, where e = demo_env and now = 0
      and body = "demo_request ''IN'' demo_card" and ord = demo_order]
  have r1: "fst (server_create_payment demo_env 0 (demo_request ''IN'' demo_card) demo_order
              (Resolved ?r)) =
            card_redirect (or_null (match_payments ?u)) (props (Some ?od) ''id'') ?u"
    by (rule mp[OF mp[OF T[THEN conjunct1] a, THEN conjunct1] i])
  have r2: "or_null (match_payments ?u) = JStr ''pay_2''"
    by (rule mp[OF T[THEN conjunct2, THEN conjunct2, THEN conjunct1] c])
  have r3: "props (Some ?od) ''id'' = Some (JStr ''order_abc'')"
    by (simp add: props_def)
  have r4: "fst (server_create_payment demo_env 0 (demo_request ''IN'' demo_card) demo_order
              (Resolved ?r2)) =
            Reply (status ?r2) (error_json (Some ''INVALID_RESPONSE'')
              ''Received HTML response but could not extract authentication URL''
              (Some (take 200 (text_body ?r2))))"
    by (rule mp[OF mp[OF T2[THEN conjunct2, THEN conjunct1] nowhere, THEN conjunct1] i2])
  have r5: "take 200 (text_body ?r2) = ?t2"
    unfolding tb2 by simp
  show ?thesis
    unfolding r1 r2 r3 r4 r5 st2 by simp
qed

end
